theory Spec2Isabelle
  imports Main "HOL-Library.Multiset"
begin

text \<open>
  A shallow embedding of the coupon engine of cartService: the three discount strategies
  (\<^verbatim>\<open>CartWiseHandler\<close>, \<^verbatim>\<open>ProductWiseHandler\<close>, \<^verbatim>\<open>BxGyHandler\<close>), the strategy registry
  \<^verbatim>\<open>CartFactory\<close>, and the two operations of \<^verbatim>\<open>CartService\<close> that use them,
  \<^verbatim>\<open>findApplicableCoupons\<close> and \<^verbatim>\<open>applyCoupon\<close>. The handlers mutate the cart they are
  given; here they return the cart as it is afterwards. What a function throws is the
  left value of a sum.
\<close>

section \<open>JavaScript numbers\<close>

text \<open>
  Quantities, prices, rates and amounts are integers (the cart schema asks for integer
  quantities, the data model for integer minor currency units), so they are modelled
  as \<open>int\<close>. The one place where the handlers leave the integers is the division
  \<^verbatim>\<open>totalBuyQuantityInCart / requiredBuyQuantity\<close> of the buy-X-get-Y handler: a zero
  divisor gives \<^verbatim>\<open>Infinity\<close>, \<^verbatim>\<open>-Infinity\<close> or \<^verbatim>\<open>NaN\<close>, and these values then flow
  through \<^verbatim>\<open>Math.min\<close>, \<^verbatim>\<open>*\<close>, \<^verbatim>\<open>+\<close>, \<^verbatim>\<open>-\<close> and the comparisons. Every number that
  can depend on that division is a \<open>jsnum\<close>.
\<close>

datatype jsnum = Fin int | PInf | NInf | NaN

text \<open>\<^verbatim>\<open>Math.floor(a / b)\<close> for integers \<open>a\<close> and \<open>b\<close>.\<close>

definition js_floor_div :: "int \<Rightarrow> int \<Rightarrow> jsnum" where
  "js_floor_div a b =
     (if b = 0 then (if 0 < a then PInf else if a < 0 then NInf else NaN)
      else Fin (a div b))"

text \<open>\<^verbatim>\<open>Math.floor\<close> of a value that is an integer, an infinity or NaN returns it.\<close>

definition js_floor :: "jsnum \<Rightarrow> jsnum" where
  "js_floor x = x"

text \<open>\<^verbatim>\<open>Math.min(x, y)\<close>: NaN if either argument is NaN.\<close>

fun js_min :: "jsnum \<Rightarrow> jsnum \<Rightarrow> jsnum" where
  "js_min NaN y = NaN"
| "js_min x NaN = NaN"
| "js_min NInf y = NInf"
| "js_min x NInf = NInf"
| "js_min PInf y = y"
| "js_min x PInf = x"
| "js_min (Fin a) (Fin b) = Fin (min a b)"

fun js_neg :: "jsnum \<Rightarrow> jsnum" where
  "js_neg (Fin a) = Fin (- a)"
| "js_neg PInf = NInf"
| "js_neg NInf = PInf"
| "js_neg NaN = NaN"

fun js_add :: "jsnum \<Rightarrow> jsnum \<Rightarrow> jsnum" where
  "js_add NaN y = NaN"
| "js_add x NaN = NaN"
| "js_add PInf NInf = NaN"
| "js_add NInf PInf = NaN"
| "js_add PInf y = PInf"
| "js_add x PInf = PInf"
| "js_add NInf y = NInf"
| "js_add x NInf = NInf"
| "js_add (Fin a) (Fin b) = Fin (a + b)"

definition js_sub :: "jsnum \<Rightarrow> jsnum \<Rightarrow> jsnum" where
  "js_sub x y = js_add x (js_neg y)"

text \<open>The sign of a number: \<open>None\<close> for NaN, else \<open>-1\<close>, \<open>0\<close> or \<open>1\<close>.\<close>

fun js_sign :: "jsnum \<Rightarrow> int option" where
  "js_sign NaN = None"
| "js_sign PInf = Some 1"
| "js_sign NInf = Some (- 1)"
| "js_sign (Fin a) = Some (sgn a)"

fun js_mul :: "jsnum \<Rightarrow> jsnum \<Rightarrow> jsnum" where
  "js_mul (Fin a) (Fin b) = Fin (a * b)"
| "js_mul x y =
     (case (js_sign x, js_sign y) of
        (Some s, Some t) \<Rightarrow>
          (if s * t = 0 then NaN else if 0 < s * t then PInf else NInf)
      | _ \<Rightarrow> NaN)"

text \<open>\<^verbatim>\<open>x === 0\<close> and \<^verbatim>\<open>x <= 0\<close>; every comparison with NaN is false.\<close>

definition js_is_zero :: "jsnum \<Rightarrow> bool" where
  "js_is_zero x = (x = Fin 0)"

fun js_le_zero :: "jsnum \<Rightarrow> bool" where
  "js_le_zero (Fin a) = (a \<le> 0)"
| "js_le_zero NInf = True"
| "js_le_zero PInf = False"
| "js_le_zero NaN = False"

text \<open>\<^verbatim>\<open>x === y\<close> on numbers: NaN equals nothing, itself included.\<close>

fun js_eq :: "jsnum \<Rightarrow> jsnum \<Rightarrow> bool" where
  "js_eq (Fin a) (Fin b) = (a = b)"
| "js_eq PInf PInf = True"
| "js_eq NInf NInf = True"
| "js_eq x y = False"

text \<open>\<^verbatim>\<open>x > 0\<close>, the test a sort makes on the value its comparator returns.\<close>

fun js_gt_zero :: "jsnum \<Rightarrow> bool" where
  "js_gt_zero (Fin a) = (0 < a)"
| "js_gt_zero PInf = True"
| "js_gt_zero NInf = False"
| "js_gt_zero NaN = False"

section \<open>Data model\<close>

text \<open>
  \<^verbatim>\<open>CartItem\<close> (product.type.ts). An optional field is an \<open>option\<close>, \<open>None\<close> for
  \<^verbatim>\<open>undefined\<close>. The fields \<^verbatim>\<open>subtotal\<close>, \<^verbatim>\<open>discount\<close> and \<^verbatim>\<open>isFree\<close> are declared but no
  handler reads or writes them; they are left out.
\<close>

record CartItem =
  product_id :: string
  quantity :: int
  price :: int
  category :: "string option"
  total_discount :: "jsnum option"
  final_price :: "jsnum option"
  freeQuantity :: "jsnum option"
  appliedCouponIds :: "string list option"

text \<open>\<^verbatim>\<open>Cart\<close> (cart.type.ts).\<close>

record Cart =
  cart_id :: "string option"
  items :: "CartItem list"
  totalAmount :: int
  discountedAmount :: "jsnum option"
  subTotal :: "jsnum option"

text \<open>
  \<^verbatim>\<open>DiscountDetails\<close> (coupon.type.ts): a union tagged by its \<^verbatim>\<open>type\<close> field, which is
  the field the handlers test.
\<close>

datatype DiscountDetails =
    Percentage (dvalue: int) (maxDiscount: "int option")
  | Fixed (dvalue: int)
  | FreeProduct
  | DiscountedProduct

text \<open>An entry of \<^verbatim>\<open>buyProducts\<close> or \<^verbatim>\<open>getProducts\<close>: \<^verbatim>\<open>{ productId, quantity }\<close>.\<close>

record ProductQuantity =
  productId :: string
  pquantity :: int

text \<open>
  \<^verbatim>\<open>CouponConditions\<close> is an untagged union, and each handler reads the payload through an
  unchecked cast (\<^verbatim>\<open>coupon.conditions as CartWiseConditions\<close>). At run time the payload is
  one object whose properties are present or not, which is what the record models: a
  property that the object lacks reads as \<^verbatim>\<open>undefined\<close>, here \<open>None\<close>.
\<close>

record CouponConditions =
  minCartValue :: "int option"
  maxCartValue :: "int option"
  minItems :: "int option"
  productIds :: "string list option"
  categories :: "string list option"
  minQuantity :: "int option"
  buyProducts :: "ProductQuantity list option"
  getProducts :: "ProductQuantity list option"
  repetitionLimit :: "int option"

text \<open>
  \<^verbatim>\<open>Coupon\<close> (coupon.type.ts). The type tag is a string: the service compares and looks it
  up as one. \<^verbatim>\<open>expiryDate\<close> is the instant in milliseconds that
  \<^verbatim>\<open>new Date(coupon.expiryDate)\<close> denotes; a stored \<open>0\<close> is the number 0, which is falsy.
\<close>

record Coupon =
  coupon_id :: string
  coupon_name :: string
  coupon_type :: string
  isActive :: bool
  expiryDate :: "int option"
  usageLimit :: "int option"
  usedCount :: int
  conditions :: CouponConditions
  discountDetails :: DiscountDetails

text \<open>\<^verbatim>\<open>ApplicableCoupons\<close>: one candidate of the discovery.\<close>

record ApplicableCoupons =
  ac_id :: string
  ac_discount :: jsnum
  ac_type :: string

text \<open>
  Truthiness of an optional number, as in \<^verbatim>\<open>conditions.maxCartValue && ...\<close>: \<^verbatim>\<open>undefined\<close>
  and \<open>0\<close> are falsy.
\<close>

definition truthy :: "int option \<Rightarrow> bool" where
  "truthy v = (case v of None \<Rightarrow> False | Some n \<Rightarrow> n \<noteq> 0)"

text \<open>\<^verbatim>\<open>a < v\<close> and \<^verbatim>\<open>a > v\<close> for an optional number: false when \<open>v\<close> is \<^verbatim>\<open>undefined\<close>.\<close>

definition lt_opt :: "int \<Rightarrow> int option \<Rightarrow> bool" where
  "lt_opt a v = (case v of None \<Rightarrow> False | Some n \<Rightarrow> a < n)"

definition gt_opt :: "int \<Rightarrow> int option \<Rightarrow> bool" where
  "gt_opt a v = (case v of None \<Rightarrow> False | Some n \<Rightarrow> a > n)"

definition ge_opt :: "int \<Rightarrow> int option \<Rightarrow> bool" where
  "ge_opt a v = (case v of None \<Rightarrow> False | Some n \<Rightarrow> a \<ge> n)"

text \<open>
  The optional cap of a percentage discount, \<^verbatim>\<open>maxDiscount ? Math.min(maxDiscount, d) : d\<close>:
  an absent cap and a cap of \<open>0\<close> are both falsy and leave \<open>d\<close> as it is.
\<close>

definition cap_opt :: "int option \<Rightarrow> int \<Rightarrow> int" where
  "cap_opt m d = (case m of None \<Rightarrow> d | Some mx \<Rightarrow> if mx = 0 then d else min mx d)"

text \<open>
  What the code throws: \<^verbatim>\<open>new Error(message)\<close> in the service, and the run-time's
  \<^verbatim>\<open>TypeError\<close> for a call or a property read on \<^verbatim>\<open>undefined\<close>.
\<close>

datatype error = Error string | TypeError

section \<open>CartWiseHandler\<close>

text \<open>
  \<^verbatim>\<open>calculateDiscount\<close>: the percentage branch divides the cart total by 100 and never
  reads the coupon's rate.
\<close>

definition CartWise_calculateDiscount :: "Cart \<Rightarrow> Coupon \<Rightarrow> int" where
  "CartWise_calculateDiscount cart coupon =
     (case discountDetails coupon of
        Percentage v m \<Rightarrow> cap_opt m (totalAmount cart div 100)
      | Fixed v \<Rightarrow> v
      | _ \<Rightarrow> 0)"

text \<open>One iteration of the loop of \<^verbatim>\<open>isApplicable\<close>: the candidate pushed, or nothing.\<close>

definition CartWise_candidate :: "Cart \<Rightarrow> Coupon \<Rightarrow> ApplicableCoupons list" where
  "CartWise_candidate cart coupon =
     (let cond = conditions coupon in
      if lt_opt (totalAmount cart) (minCartValue cond) then []
      else if truthy (maxCartValue cond) \<and> gt_opt (totalAmount cart) (maxCartValue cond) then []
      else if truthy (minItems cond) \<and> lt_opt (int (length (items cart))) (minItems cond) then []
      else let discount = CartWise_calculateDiscount cart coupon in
        if discount \<le> 0 then []
        else [\<lparr>ac_id = coupon_id coupon, ac_discount = Fin discount, ac_type = ''cart''\<rparr>])"

definition CartWise_isApplicable :: "Cart \<Rightarrow> Coupon list \<Rightarrow> ApplicableCoupons list" where
  "CartWise_isApplicable cart coupons =
     (if items cart = [] then [] else concat (map (CartWise_candidate cart) coupons))"

definition CartWise_applyDiscount :: "Cart \<Rightarrow> Coupon \<Rightarrow> Cart" where
  "CartWise_applyDiscount cart coupon =
     (let discount = CartWise_calculateDiscount cart coupon
      in cart\<lparr>discountedAmount := Some (Fin discount),
              subTotal := Some (Fin (totalAmount cart - discount))\<rparr>)"

section \<open>ProductWiseHandler\<close>

text \<open>
  The handler in its later revision (src/unnamed/part_003), which the README describes.
  The earlier revision under src/handlers/productwise.handler.ts is the same code without
  the category test.

  \<^verbatim>\<open>conditions.productIds && conditions.productIds.includes(item.product_id)\<close>, and
  \<^verbatim>\<open>conditions.categories && item.category && conditions.categories.includes(item.category)\<close>:
  an absent list matches nothing, and neither does an absent or empty category, which is
  falsy.
\<close>

definition isProductMatch :: "CouponConditions \<Rightarrow> CartItem \<Rightarrow> bool" where
  "isProductMatch cond item =
     (case productIds cond of None \<Rightarrow> False | Some ps \<Rightarrow> product_id item \<in> set ps)"

definition isCategoryMatch :: "CouponConditions \<Rightarrow> CartItem \<Rightarrow> bool" where
  "isCategoryMatch cond item =
     (case categories cond of
        None \<Rightarrow> False
      | Some cs \<Rightarrow>
          (case category item of
             None \<Rightarrow> False
           | Some c \<Rightarrow> c \<noteq> [] \<and> c \<in> set cs))"

text \<open>The test of the three loops: \<^verbatim>\<open>isProductMatch || isCategoryMatch\<close>.\<close>

definition isMatch :: "CouponConditions \<Rightarrow> CartItem \<Rightarrow> bool" where
  "isMatch cond item = (isProductMatch cond item \<or> isCategoryMatch cond item)"

text \<open>
  The discount of one matched item: a floored percentage of \<^verbatim>\<open>price * quantity\<close> under the
  optional cap, or the fixed value per unit; a coupon of another discount type adds
  nothing.
\<close>

definition ProductWise_itemDiscount :: "DiscountDetails \<Rightarrow> CartItem \<Rightarrow> int" where
  "ProductWise_itemDiscount dd item =
     (let itemTotal = price item * quantity item in
      case dd of
        Percentage v m \<Rightarrow> cap_opt m ((itemTotal * v) div 100)
      | Fixed v \<Rightarrow> v * quantity item
      | _ \<Rightarrow> 0)"

text \<open>The loop of \<^verbatim>\<open>calculateDiscount\<close> over the items, \<open>m\<close> being the matching test.\<close>

fun ProductWise_sumDiscount ::
  "(CartItem \<Rightarrow> bool) \<Rightarrow> DiscountDetails \<Rightarrow> CartItem list \<Rightarrow> int" where
  "ProductWise_sumDiscount m dd [] = 0"
| "ProductWise_sumDiscount m dd (item # rest) =
     (if \<not> m item then ProductWise_sumDiscount m dd rest
      else ProductWise_itemDiscount dd item + ProductWise_sumDiscount m dd rest)"

definition ProductWise_calculateDiscount :: "Cart \<Rightarrow> Coupon \<Rightarrow> int" where
  "ProductWise_calculateDiscount cart coupon =
     ProductWise_sumDiscount (isMatch (conditions coupon)) (discountDetails coupon)
       (items cart)"

text \<open>
  The inner loop of \<^verbatim>\<open>isApplicable\<close>: \<^verbatim>\<open>hasApplicableProducts\<close> and
  \<^verbatim>\<open>totalQuantityOfApplicableProducts\<close> after the items.
\<close>

fun ProductWise_scan :: "(CartItem \<Rightarrow> bool) \<Rightarrow> CartItem list \<Rightarrow> bool \<times> int \<Rightarrow> bool \<times> int" where
  "ProductWise_scan m [] acc = acc"
| "ProductWise_scan m (item # rest) (found, qty) =
     (if m item then ProductWise_scan m rest (True, qty + quantity item)
      else ProductWise_scan m rest (found, qty))"

definition ProductWise_candidate :: "Cart \<Rightarrow> Coupon \<Rightarrow> ApplicableCoupons list" where
  "ProductWise_candidate cart coupon =
     (let cond = conditions coupon;
          (hasApplicableProducts, totalQuantity) =
             ProductWise_scan (isMatch cond) (items cart) (False, 0) in
      if \<not> hasApplicableProducts then []
      else if truthy (minQuantity cond) \<and> lt_opt totalQuantity (minQuantity cond) then []
      else let discount = ProductWise_calculateDiscount cart coupon in
        if discount \<le> 0 then []
        else [\<lparr>ac_id = coupon_id coupon, ac_discount = Fin discount, ac_type = ''product''\<rparr>])"

definition ProductWise_isApplicable :: "Cart \<Rightarrow> Coupon list \<Rightarrow> ApplicableCoupons list" where
  "ProductWise_isApplicable cart coupons =
     (if items cart = [] then [] else concat (map (ProductWise_candidate cart) coupons))"

text \<open>\<^verbatim>\<open>item.appliedCouponIds.push(id)\<close>, after the list is created when it is absent.\<close>

definition pushCouponId :: "string \<Rightarrow> string list option \<Rightarrow> string list option" where
  "pushCouponId cid ids = Some ((case ids of None \<Rightarrow> [] | Some l \<Rightarrow> l) @ [cid])"

text \<open>What \<^verbatim>\<open>applyDiscount\<close> writes into one matched item.\<close>

definition ProductWise_applyItem :: "DiscountDetails \<Rightarrow> string \<Rightarrow> CartItem \<Rightarrow> CartItem" where
  "ProductWise_applyItem dd cid item =
     (let itemTotal = price item * quantity item;
          itemDiscount = ProductWise_itemDiscount dd item
      in item\<lparr>total_discount := Some (Fin itemDiscount),
              final_price := Some (Fin (itemTotal - itemDiscount)),
              appliedCouponIds := pushCouponId cid (appliedCouponIds item)\<rparr>)"

text \<open>The loop of \<^verbatim>\<open>applyDiscount\<close>: the items after it, and \<^verbatim>\<open>totalDiscount\<close>.\<close>

fun ProductWise_applyLoop ::
  "(CartItem \<Rightarrow> bool) \<Rightarrow> DiscountDetails \<Rightarrow> string \<Rightarrow> CartItem list \<Rightarrow> CartItem list \<times> int" where
  "ProductWise_applyLoop m dd cid [] = ([], 0)"
| "ProductWise_applyLoop m dd cid (item # rest) =
     (let (rest', totalDiscount) = ProductWise_applyLoop m dd cid rest in
      if \<not> m item then (item # rest', totalDiscount)
      else (ProductWise_applyItem dd cid item # rest',
            ProductWise_itemDiscount dd item + totalDiscount))"

definition ProductWise_applyDiscount :: "Cart \<Rightarrow> Coupon \<Rightarrow> Cart" where
  "ProductWise_applyDiscount cart coupon =
     (let (items', totalDiscount) =
            ProductWise_applyLoop (isMatch (conditions coupon)) (discountDetails coupon)
              (coupon_id coupon) (items cart)
      in cart\<lparr>items := items',
              discountedAmount := Some (Fin totalDiscount),
              subTotal := Some (Fin (totalAmount cart - totalDiscount))\<rparr>)"

section \<open>BxGyHandler\<close>

text \<open>\<^verbatim>\<open>cart.items.find(item => item.product_id === p.productId)\<close>: the first such item.\<close>

definition findItem :: "CartItem list \<Rightarrow> string \<Rightarrow> CartItem option" where
  "findItem its pid = List.find (\<lambda>item. product_id item = pid) its"

text \<open>
  The position of that item. \<^verbatim>\<open>find\<close> returns a reference: \<^verbatim>\<open>applyDiscount\<close> writes
  through it into the cart's own item.
\<close>

fun findIndex :: "CartItem list \<Rightarrow> string \<Rightarrow> nat option" where
  "findIndex [] pid = None"
| "findIndex (item # rest) pid =
     (if product_id item = pid then Some 0
      else (case findIndex rest pid of None \<Rightarrow> None | Some i \<Rightarrow> Some (Suc i)))"

text \<open>\<^verbatim>\<open>entries.reduce((sum, p) => sum + p.quantity, 0)\<close>.\<close>

definition sumQuantity :: "ProductQuantity list \<Rightarrow> int" where
  "sumQuantity entries = foldl (\<lambda>s p. s + pquantity p) 0 entries"

text \<open>
  The loop that adds, over the entries, the quantity of the cart item found for each
  (nothing when the cart has none).
\<close>

fun quantityInCart :: "CartItem list \<Rightarrow> ProductQuantity list \<Rightarrow> int \<Rightarrow> int" where
  "quantityInCart its [] acc = acc"
| "quantityInCart its (p # rest) acc =
     (case findItem its (productId p) of
        None \<Rightarrow> quantityInCart its rest acc
      | Some cartItem \<Rightarrow> quantityInCart its rest (acc + quantity cartItem))"

record BxGyParams =
  requiredBuyQuantity :: int
  totalBuyQuantityInCart :: int
  actualRepetitions :: jsnum
  requiredGetQuantity :: int

text \<open>\<^verbatim>\<open>Math.min(x, limit)\<close> where the limit may be \<^verbatim>\<open>undefined\<close>, which makes it NaN.\<close>

definition num_opt :: "int option \<Rightarrow> jsnum" where
  "num_opt v = (case v of None \<Rightarrow> NaN | Some n \<Rightarrow> Fin n)"

text \<open>
  \<^verbatim>\<open>calculateBxGyParams\<close>. The division is not guarded. A payload without
  \<^verbatim>\<open>buyProducts\<close> or \<^verbatim>\<open>getProducts\<close> makes \<^verbatim>\<open>.reduce\<close> a call on \<^verbatim>\<open>undefined\<close>.
\<close>

definition calculateBxGyParams :: "Cart \<Rightarrow> CouponConditions \<Rightarrow> error + BxGyParams" where
  "calculateBxGyParams cart cond =
     (case buyProducts cond of
        None \<Rightarrow> Inl TypeError
      | Some buys \<Rightarrow>
          (let requiredBuy = sumQuantity buys;
               totalBuy = quantityInCart (items cart) buys 0;
               maxPossibleRepetitions = js_floor_div totalBuy requiredBuy;
               actual = js_min maxPossibleRepetitions (num_opt (repetitionLimit cond))
           in case getProducts cond of
                None \<Rightarrow> Inl TypeError
              | Some gets \<Rightarrow>
                  Inr \<lparr>requiredBuyQuantity = requiredBuy,
                       totalBuyQuantityInCart = totalBuy,
                       actualRepetitions = actual,
                       requiredGetQuantity = sumQuantity gets\<rparr>))"

text \<open>
  The loop of \<^verbatim>\<open>calculateDiscount\<close> over the get entries, with \<^verbatim>\<open>remainingFreeQuantity\<close>
  and \<^verbatim>\<open>totalDiscount\<close>: \<^verbatim>\<open>break\<close> when nothing remains, \<^verbatim>\<open>continue\<close> when the cart has no
  such item.
\<close>

fun BxGy_discountLoop :: "CartItem list \<Rightarrow> ProductQuantity list \<Rightarrow> jsnum \<Rightarrow> jsnum \<Rightarrow> jsnum" where
  "BxGy_discountLoop its [] remaining totalDiscount = totalDiscount"
| "BxGy_discountLoop its (g # rest) remaining totalDiscount =
     (if js_is_zero remaining then totalDiscount
      else (case findItem its (productId g) of
              None \<Rightarrow> BxGy_discountLoop its rest remaining totalDiscount
            | Some cartItem \<Rightarrow>
                (let freeQ = js_min (Fin (quantity cartItem)) remaining
                 in BxGy_discountLoop its rest (js_sub remaining freeQ)
                      (js_add totalDiscount (js_mul freeQ (Fin (price cartItem)))))))"

definition BxGy_calculateDiscount :: "Cart \<Rightarrow> Coupon \<Rightarrow> error + jsnum" where
  "BxGy_calculateDiscount cart coupon =
     (case calculateBxGyParams cart (conditions coupon) of
        Inl e \<Rightarrow> Inl e
      | Inr params \<Rightarrow>
          if js_is_zero (actualRepetitions params) then Inr (Fin 0)
          else (case getProducts (conditions coupon) of
                  None \<Rightarrow> Inl TypeError
                | Some gets \<Rightarrow>
                    Inr (js_floor (BxGy_discountLoop (items cart) gets
                      (js_mul (actualRepetitions params) (Fin (requiredGetQuantity params)))
                      (Fin 0)))))"

text \<open>One iteration of the loop of \<^verbatim>\<open>isApplicable\<close>.\<close>

definition BxGy_candidate :: "Cart \<Rightarrow> Coupon \<Rightarrow> error + ApplicableCoupons list" where
  "BxGy_candidate cart coupon =
     (case calculateBxGyParams cart (conditions coupon) of
        Inl e \<Rightarrow> Inl e
      | Inr params \<Rightarrow>
          if totalBuyQuantityInCart params < requiredBuyQuantity params then Inr []
          else if js_is_zero (actualRepetitions params) then Inr []
          else (case getProducts (conditions coupon) of
                  None \<Rightarrow> Inl TypeError
                | Some gets \<Rightarrow>
                    (let totalGetQuantityInCart = quantityInCart (items cart) gets 0;
                         freeQ = js_min (Fin totalGetQuantityInCart)
                                   (js_mul (actualRepetitions params)
                                      (Fin (requiredGetQuantity params)))
                     in if js_is_zero freeQ then Inr []
                        else (case BxGy_calculateDiscount cart coupon of
                                Inl e \<Rightarrow> Inl e
                              | Inr discount \<Rightarrow>
                                  if js_le_zero discount then Inr []
                                  else Inr [\<lparr>ac_id = coupon_id coupon, ac_discount = discount,
                                             ac_type = ''BxGy''\<rparr>]))))"

text \<open>The loop over the coupons: an exception ends it.\<close>

fun BxGy_candidates :: "Cart \<Rightarrow> Coupon list \<Rightarrow> error + ApplicableCoupons list" where
  "BxGy_candidates cart [] = Inr []"
| "BxGy_candidates cart (coupon # rest) =
     (case BxGy_candidate cart coupon of
        Inl e \<Rightarrow> Inl e
      | Inr found \<Rightarrow>
          (case BxGy_candidates cart rest of
             Inl e \<Rightarrow> Inl e
           | Inr others \<Rightarrow> Inr (found @ others)))"

definition BxGy_isApplicable :: "Cart \<Rightarrow> Coupon list \<Rightarrow> error + ApplicableCoupons list" where
  "BxGy_isApplicable cart coupons =
     (if items cart = [] then Inr [] else BxGy_candidates cart coupons)"

text \<open>What \<^verbatim>\<open>applyDiscount\<close> writes into the item found for a get entry.\<close>

definition BxGy_applyItem :: "string \<Rightarrow> jsnum \<Rightarrow> CartItem \<Rightarrow> CartItem" where
  "BxGy_applyItem cid freeQ cartItem =
     (let itemDiscount = js_mul freeQ (Fin (price cartItem));
          td = js_floor itemDiscount
      in cartItem\<lparr>freeQuantity := Some freeQ,
                  total_discount := Some td,
                  final_price := Some (js_sub (Fin (quantity cartItem * price cartItem)) td),
                  appliedCouponIds := pushCouponId cid (appliedCouponIds cartItem)\<rparr>)"

text \<open>
  The loop of \<^verbatim>\<open>applyDiscount\<close>: the cart's items, \<^verbatim>\<open>remainingFreeQuantity\<close> and
  \<^verbatim>\<open>totalDiscount\<close>; it returns the items and the total.
\<close>

fun BxGy_applyLoop ::
  "string \<Rightarrow> ProductQuantity list \<Rightarrow> CartItem list \<Rightarrow> jsnum \<Rightarrow> jsnum \<Rightarrow> CartItem list \<times> jsnum" where
  "BxGy_applyLoop cid [] its remaining totalDiscount = (its, totalDiscount)"
| "BxGy_applyLoop cid (g # rest) its remaining totalDiscount =
     (if js_is_zero remaining then (its, totalDiscount)
      else (case findIndex its (productId g) of
              None \<Rightarrow> BxGy_applyLoop cid rest its remaining totalDiscount
            | Some i \<Rightarrow>
                (let cartItem = its ! i;
                     freeQ = js_min (Fin (quantity cartItem)) remaining;
                     itemDiscount = js_mul freeQ (Fin (price cartItem))
                 in BxGy_applyLoop cid rest (its[i := BxGy_applyItem cid freeQ cartItem])
                      (js_sub remaining freeQ) (js_add totalDiscount itemDiscount))))"

definition BxGy_applyDiscount :: "Cart \<Rightarrow> Coupon \<Rightarrow> error + Cart" where
  "BxGy_applyDiscount cart coupon =
     (case calculateBxGyParams cart (conditions coupon) of
        Inl e \<Rightarrow> Inl e
      | Inr params \<Rightarrow>
          if js_is_zero (actualRepetitions params) then Inr cart
          else (case getProducts (conditions coupon) of
                  None \<Rightarrow> Inl TypeError
                | Some gets \<Rightarrow>
                    (let (items', totalDiscount) =
                           BxGy_applyLoop (coupon_id coupon) gets (items cart)
                             (js_mul (actualRepetitions params)
                                (Fin (requiredGetQuantity params)))
                             (Fin 0);
                         discounted = js_floor totalDiscount
                     in Inr (cart\<lparr>items := items',
                                  discountedAmount := Some discounted,
                                  subTotal := Some (js_sub (Fin (totalAmount cart)) discounted)\<rparr>))))"

section \<open>CartFactory\<close>

datatype Strategy = CartWiseHandler | ProductWiseHandler | BxGyHandler

definition getStrategy :: "string \<Rightarrow> Strategy option" where
  "getStrategy t =
     (if t = [] then None
      else if t = ''cart'' then Some CartWiseHandler
      else if t = ''product'' then Some ProductWiseHandler
      else if t = ''BxGy'' then Some BxGyHandler
      else None)"

text \<open>The three methods of the \<^verbatim>\<open>CouponStrategy\<close> interface, by dynamic dispatch.\<close>

fun strategy_isApplicable :: "Strategy \<Rightarrow> Cart \<Rightarrow> Coupon list \<Rightarrow> error + ApplicableCoupons list" where
  "strategy_isApplicable CartWiseHandler cart coupons = Inr (CartWise_isApplicable cart coupons)"
| "strategy_isApplicable ProductWiseHandler cart coupons =
     Inr (ProductWise_isApplicable cart coupons)"
| "strategy_isApplicable BxGyHandler cart coupons = BxGy_isApplicable cart coupons"

fun strategy_calculateDiscount :: "Strategy \<Rightarrow> Cart \<Rightarrow> Coupon \<Rightarrow> error + jsnum" where
  "strategy_calculateDiscount CartWiseHandler cart coupon =
     Inr (Fin (CartWise_calculateDiscount cart coupon))"
| "strategy_calculateDiscount ProductWiseHandler cart coupon =
     Inr (Fin (ProductWise_calculateDiscount cart coupon))"
| "strategy_calculateDiscount BxGyHandler cart coupon = BxGy_calculateDiscount cart coupon"

fun strategy_applyDiscount :: "Strategy \<Rightarrow> Cart \<Rightarrow> Coupon \<Rightarrow> error + Cart" where
  "strategy_applyDiscount CartWiseHandler cart coupon = Inr (CartWise_applyDiscount cart coupon)"
| "strategy_applyDiscount ProductWiseHandler cart coupon =
     Inr (ProductWise_applyDiscount cart coupon)"
| "strategy_applyDiscount BxGyHandler cart coupon = BxGy_applyDiscount cart coupon"

section \<open>CartService\<close>

text \<open>
  The status checks, as the filter of \<^verbatim>\<open>findApplicableCoupons\<close> and the guards of
  \<^verbatim>\<open>applyCoupon\<close> write them. \<open>now\<close> is the instant of \<^verbatim>\<open>new Date()\<close>. The expiry date and
  the usage limit are tested for truthiness first
  (\<^verbatim>\<open>coupon.expiryDate && new Date(coupon.expiryDate) < new Date()\<close>,
  \<^verbatim>\<open>coupon.usageLimit && coupon.usedCount >= coupon.usageLimit\<close>): a stored \<open>0\<close> is
  falsy, and the comparison is then not made.
\<close>

definition isExpired :: "int \<Rightarrow> Coupon \<Rightarrow> bool" where
  "isExpired now coupon =
     (truthy (expiryDate coupon) \<and> gt_opt now (expiryDate coupon))"

definition usageLimitExceeded :: "Coupon \<Rightarrow> bool" where
  "usageLimitExceeded coupon =
     (truthy (usageLimit coupon) \<and> ge_opt (usedCount coupon) (usageLimit coupon))"

definition activeFilter :: "int \<Rightarrow> Coupon \<Rightarrow> bool" where
  "activeFilter now coupon =
     (if \<not> isActive coupon then False
      else if isExpired now coupon then False
      else if usageLimitExceeded coupon then False
      else True)"

text \<open>\<^verbatim>\<open>coupon.type === 'Product' ? 'product' : coupon.type\<close>.\<close>

definition normalType :: "Coupon \<Rightarrow> string" where
  "normalType coupon = (if coupon_type coupon = ''Product'' then ''product'' else coupon_type coupon)"

text \<open>
  \<^verbatim>\<open>couponsByType\<close> is an object literal with the three keys \<^verbatim>\<open>cart\<close>, \<^verbatim>\<open>product\<close> and
  \<^verbatim>\<open>BxGy\<close>. The read \<^verbatim>\<open>couponsByType[type]\<close> also finds what the object inherits from
  \<^verbatim>\<open>Object.prototype\<close>; ECMAScript gives it these properties, each a function or an
  object, hence truthy, and none with a \<^verbatim>\<open>push\<close> method.
\<close>

definition objectPrototypeKeys :: "string list" where
  "objectPrototypeKeys =
     [''constructor'', ''hasOwnProperty'', ''isPrototypeOf'', ''propertyIsEnumerable'',
      ''toLocaleString'', ''toString'', ''valueOf'', ''__proto__'', ''__defineGetter__'',
      ''__defineSetter__'', ''__lookupGetter__'', ''__lookupSetter__'']"

record CouponsByType =
  byCart :: "Coupon list"
  byProduct :: "Coupon list"
  byBxGy :: "Coupon list"

text \<open>
  The grouping loop. For an inherited key the guard \<^verbatim>\<open>if (couponsByType[type])\<close> passes and
  \<^verbatim>\<open>couponsByType[type].push(coupon)\<close> calls \<^verbatim>\<open>undefined\<close>.
\<close>

fun groupByType :: "Coupon list \<Rightarrow> CouponsByType \<Rightarrow> error + CouponsByType" where
  "groupByType [] g = Inr g"
| "groupByType (coupon # rest) g =
     (let t = normalType coupon in
      if t = ''cart'' then groupByType rest (g\<lparr>byCart := byCart g @ [coupon]\<rparr>)
      else if t = ''product'' then groupByType rest (g\<lparr>byProduct := byProduct g @ [coupon]\<rparr>)
      else if t = ''BxGy'' then groupByType rest (g\<lparr>byBxGy := byBxGy g @ [coupon]\<rparr>)
      else if t \<in> set objectPrototypeKeys then Inl TypeError
      else groupByType rest g)"

text \<open>\<^verbatim>\<open>Object.entries(couponsByType)\<close>: the own keys in the order they were written.\<close>

definition entries :: "CouponsByType \<Rightarrow> (string \<times> Coupon list) list" where
  "entries g = [(''cart'', byCart g), (''product'', byProduct g), (''BxGy'', byBxGy g)]"

text \<open>The loop over the groups: empty groups and unknown types are skipped.\<close>

fun applicableOfGroups :: "Cart \<Rightarrow> (string \<times> Coupon list) list \<Rightarrow> error + ApplicableCoupons list" where
  "applicableOfGroups cart [] = Inr []"
| "applicableOfGroups cart ((t, coupons) # rest) =
     (if coupons = [] then applicableOfGroups cart rest
      else (case getStrategy t of
              None \<Rightarrow> applicableOfGroups cart rest
            | Some strategy \<Rightarrow>
                (case strategy_isApplicable strategy cart coupons of
                   Inl e \<Rightarrow> Inl e
                 | Inr applicable \<Rightarrow>
                     (case applicableOfGroups cart rest of
                        Inl e \<Rightarrow> Inl e
                      | Inr others \<Rightarrow> Inr (applicable @ others)))))"

text \<open>
  \<^verbatim>\<open>applicableCoupons.sort((a, b) => b.discount - a.discount)\<close>. The comparator is the
  program's. \<^verbatim>\<open>Array.prototype.sort\<close> is the engine's, and the model takes it as a
  parameter: a function from a comparator and a list to a list. (ECMAScript fixes what it
  returns where the comparator is a consistent order of the elements, and leaves the
  order to the implementation where it is not, as with a NaN among the discounts.)
\<close>

definition compareDiscount :: "ApplicableCoupons \<Rightarrow> ApplicableCoupons \<Rightarrow> jsnum" where
  "compareDiscount a b = js_sub (ac_discount b) (ac_discount a)"

type_synonym arraySort =
  "(ApplicableCoupons \<Rightarrow> ApplicableCoupons \<Rightarrow> jsnum) \<Rightarrow> ApplicableCoupons list \<Rightarrow> ApplicableCoupons list"

text \<open>
  \<^verbatim>\<open>findApplicableCoupons\<close>, from the collection that \<^verbatim>\<open>getAllCoupons\<close> resolves to.
\<close>

definition findApplicableCoupons ::
  "arraySort \<Rightarrow> int \<Rightarrow> Cart \<Rightarrow> Coupon list \<Rightarrow> error + ApplicableCoupons list" where
  "findApplicableCoupons engineSort now cart allCoupons =
     (let activeCoupons = filter (activeFilter now) allCoupons in
      case groupByType activeCoupons \<lparr>byCart = [], byProduct = [], byBxGy = []\<rparr> of
        Inl e \<Rightarrow> Inl e
      | Inr couponsByType \<Rightarrow>
          (case applicableOfGroups cart (entries couponsByType) of
             Inl e \<Rightarrow> Inl e
           | Inr applicableCoupons \<Rightarrow> Inr (engineSort compareDiscount applicableCoupons)))"

text \<open>
  The key-value store holds each coupon under \<^verbatim>\<open>coupon:<id>\<close>; a stored value is the
  coupon itself (its JSON text is not modelled).
\<close>

type_synonym redis = "string \<rightharpoonup> Coupon"

definition couponKey :: "string \<Rightarrow> string" where
  "couponKey cid = ''coupon:'' @ cid"

definition getCouponById :: "redis \<Rightarrow> string \<Rightarrow> Coupon option" where
  "getCouponById store cid = store (couponKey cid)"

definition updateCoupon :: "redis \<Rightarrow> string \<Rightarrow> Coupon \<Rightarrow> redis" where
  "updateCoupon store cid coupon =
     (case getCouponById store cid of
        None \<Rightarrow> store
      | Some existingCoupon \<Rightarrow> store(couponKey cid \<mapsto> coupon))"

text \<open>
  \<^verbatim>\<open>applyCoupon\<close>. The handlers write into the caller's cart object, so the function
  returns what it resolves to (or the error it throws), the cart object as it is left,
  and the store as it is left.
\<close>

definition applyCoupon :: "int \<Rightarrow> redis \<Rightarrow> Cart \<Rightarrow> string \<Rightarrow> (error + Cart) \<times> Cart \<times> redis" where
  "applyCoupon now store cart couponId =
     (case getCouponById store couponId of
        None \<Rightarrow> (Inl (Error (''Coupon with ID '' @ couponId @ '' not found'')), cart, store)
      | Some coupon \<Rightarrow>
          if \<not> isActive coupon then (Inl (Error ''Coupon is not active''), cart, store)
          else if isExpired now coupon then (Inl (Error ''Coupon has expired''), cart, store)
          else if usageLimitExceeded coupon then
            (Inl (Error ''Coupon usage limit exceeded''), cart, store)
          else (case getStrategy (normalType coupon) of
                  None \<Rightarrow>
                    (Inl (Error (''Invalid coupon type: '' @ coupon_type coupon)), cart, store)
                | Some strategy \<Rightarrow>
                    (case strategy_isApplicable strategy cart [coupon] of
                       Inl e \<Rightarrow> (Inl e, cart, store)
                     | Inr applicableCoupons \<Rightarrow>
                         if applicableCoupons = [] then
                           (Inl (Error ''Coupon is not applicable to this cart''), cart, store)
                         else (case strategy_applyDiscount strategy cart coupon of
                                 Inl e \<Rightarrow> (Inl e, cart, store)
                               | Inr updatedCart \<Rightarrow>
                                   (Inr updatedCart, updatedCart,
                                    updateCoupon store couponId
                                      (coupon\<lparr>usedCount := usedCount coupon + 1\<rparr>))))))"

text \<open>\<^verbatim>\<open>calculateCartTotal\<close>.\<close>

definition calculateCartTotal :: "Cart \<Rightarrow> int" where
  "calculateCartTotal cart = foldl (\<lambda>t item. t + price item * quantity item) 0 (items cart)"

section \<open>The specification's wording\<close>

text \<open>
  The distribution of a buy-X-get-Y entitlement as the specification words it: each get
  entry whose product is in the cart is granted the smaller of what remains and the
  quantity the cart holds of it, in the declared order. The list pairs each such item
  with its grant.
\<close>

fun grants :: "CartItem list \<Rightarrow> int \<Rightarrow> ProductQuantity list \<Rightarrow> (CartItem \<times> int) list" where
  "grants its remaining [] = []"
| "grants its remaining (g # rest) =
     (case findItem its (productId g) of
        None \<Rightarrow> grants its remaining rest
      | Some cartItem \<Rightarrow>
          (cartItem, min remaining (quantity cartItem))
            # grants its (remaining - min remaining (quantity cartItem)) rest)"

definition grantsValue :: "(CartItem \<times> int) list \<Rightarrow> int" where
  "grantsValue gs = sum_list (map (\<lambda>(cartItem, freeQ). freeQ * price cartItem) gs)"

text \<open>The quantity of the cart item found for an entry, \<open>0\<close> when there is none.\<close>

definition quantityOf :: "CartItem list \<Rightarrow> ProductQuantity \<Rightarrow> int" where
  "quantityOf its p = (case findItem its (productId p) of None \<Rightarrow> 0 | Some cartItem \<Rightarrow> quantity cartItem)"

text \<open>
  The coupon gate as the specification words it: active, not expired at the evaluation
  time, and the usage count below the usage limit when there is one.
\<close>

definition expiredAt :: "int \<Rightarrow> Coupon \<Rightarrow> bool" where
  "expiredAt now coupon = gt_opt now (expiryDate coupon)"

definition reachedUsageLimit :: "Coupon \<Rightarrow> bool" where
  "reachedUsageLimit coupon = ge_opt (usedCount coupon) (usageLimit coupon)"

definition couponGate :: "int \<Rightarrow> Coupon \<Rightarrow> bool" where
  "couponGate now coupon =
     (isActive coupon \<and> \<not> expiredAt now coupon \<and> \<not> reachedUsageLimit coupon)"

text \<open>
  A coupon as the schemas of the service admit it: a usage limit is a positive integer
  and an expiry date is a date, so neither is stored as \<open>0\<close>.
\<close>

definition wellFormedStatus :: "Coupon \<Rightarrow> bool" where
  "wellFormedStatus coupon = (usageLimit coupon \<noteq> Some 0 \<and> expiryDate coupon \<noteq> Some 0)"


definition ofType :: "string \<Rightarrow> Coupon list \<Rightarrow> Coupon list" where
  "ofType t coupons = filter (\<lambda>coupon. normalType coupon = t) coupons"

text \<open>\<^verbatim>\<open>x >= y\<close> on numbers, false when either is NaN.\<close>

fun js_ge :: "jsnum \<Rightarrow> jsnum \<Rightarrow> bool" where
  "js_ge NaN y = False"
| "js_ge x NaN = False"
| "js_ge PInf y = True"
| "js_ge x NInf = True"
| "js_ge x PInf = False"
| "js_ge NInf y = False"
| "js_ge (Fin a) (Fin b) = (b \<le> a)"

definition isNumber :: "jsnum \<Rightarrow> bool" where
  "isNumber x = (x \<noteq> NaN)"

text \<open>
  The invariants, with the program's equality of numbers: an amount that is NaN satisfies
  no equation.
\<close>

definition itemInvariant :: "CartItem \<Rightarrow> bool" where
  "itemInvariant item =
     (case (total_discount item, final_price item) of
        (Some td, Some fp) \<Rightarrow> js_eq fp (js_sub (Fin (quantity item * price item)) td)
      | _ \<Rightarrow> False)"

definition cartInvariant :: "Cart \<Rightarrow> bool" where
  "cartInvariant cart =
     (case (discountedAmount cart, subTotal cart) of
        (Some d, Some st) \<Rightarrow> js_eq st (js_sub (Fin (totalAmount cart)) d)
      | _ \<Rightarrow> False)"

text \<open>
  An item that the application of the coupon \<open>cid\<close> has touched: it satisfies the
  invariant and the coupon is the last in its list of applied coupons.
\<close>

definition touchedBy :: "string \<Rightarrow> CartItem \<Rightarrow> bool" where
  "touchedBy cid item =
     (itemInvariant item
      \<and> (case appliedCouponIds item of None \<Rightarrow> False | Some ids \<Rightarrow> ids \<noteq> [] \<and> last ids = cid))"

definition eachSameOrTouched :: "string \<Rightarrow> CartItem list \<Rightarrow> CartItem list \<Rightarrow> bool" where
  "eachSameOrTouched cid before after =
     (length after = length before
      \<and> list_all (\<lambda>(b, a). a = b \<or> touchedBy cid a) (zip before after))"

text \<open>The fields of an item that a handler reads and never writes.\<close>

definition coreOf :: "CartItem \<Rightarrow> string \<times> int \<times> int \<times> string option" where
  "coreOf item = (product_id item, quantity item, price item, category item)"

text \<open>
  The repetitions of a buy-X-get-Y deal as the specification words them: the quantity the
  cart holds of the buy products, divided by the required quantity and floored, at most
  the repetition limit. The entitlement is that many times the get quantities.
\<close>

definition repetitions :: "CartItem list \<Rightarrow> ProductQuantity list \<Rightarrow> int \<Rightarrow> int" where
  "repetitions its buys limit =
     min (sum_list (map (quantityOf its) buys) div sum_list (map pquantity buys)) limit"

definition entitlement :: "CartItem list \<Rightarrow> ProductQuantity list \<Rightarrow> ProductQuantity list \<Rightarrow> int \<Rightarrow> int" where
  "entitlement its buys gets limit = repetitions its buys limit * sum_list (map pquantity gets)"

text \<open>
  Matching as the specification words it: the product identifier is in the coupon's set
  of eligible product identifiers, or the category is in its set of eligible categories;
  a set that the coupon does not give is empty.
\<close>

definition eligibleProductIds :: "CouponConditions \<Rightarrow> string set" where
  "eligibleProductIds cond = (case productIds cond of None \<Rightarrow> {} | Some ps \<Rightarrow> set ps)"

definition eligibleCategories :: "CouponConditions \<Rightarrow> string set" where
  "eligibleCategories cond = (case categories cond of None \<Rightarrow> {} | Some cs \<Rightarrow> set cs)"

definition matched :: "CouponConditions \<Rightarrow> CartItem \<Rightarrow> bool" where
  "matched cond item =
     (product_id item \<in> eligibleProductIds cond
      \<or> (case category item of None \<Rightarrow> False | Some c \<Rightarrow> c \<in> eligibleCategories cond))"

text \<open>The type tags that the service recognizes.\<close>

definition recognizedTag :: "string \<Rightarrow> bool" where
  "recognizedTag t = (t = ''cart'' \<or> t = ''Product'' \<or> t = ''product'' \<or> t = ''BxGy'')"

text \<open>
  The candidates of a coupon collection as the specification words them: the coupons are
  grouped by type tag, each group goes to its strategy, and the results are concatenated.
\<close>

definition candidatesOf :: "Cart \<Rightarrow> Coupon list \<Rightarrow> error + ApplicableCoupons list" where
  "candidatesOf cart coupons =
     (case BxGy_isApplicable cart (ofType ''BxGy'' coupons) of
        Inl e \<Rightarrow> Inl e
      | Inr fromBxGy \<Rightarrow>
          Inr (CartWise_isApplicable cart (ofType ''cart'' coupons)
               @ ProductWise_isApplicable cart (ofType ''product'' coupons)
               @ fromBxGy))"

definition byDiscountDescending :: "ApplicableCoupons list \<Rightarrow> bool" where
  "byDiscountDescending xs = sorted_wrt (\<lambda>a b. js_ge (ac_discount a) (ac_discount b)) xs"

definition allNumbers :: "ApplicableCoupons list \<Rightarrow> bool" where
  "allNumbers xs = list_all (\<lambda>a. isNumber (ac_discount a)) xs"

text \<open>
  A stable insertion sort under a comparator: \<open>y\<close> goes before \<open>x\<close> only where the
  comparator's value for \<open>x\<close> and \<open>y\<close> is greater than zero. Where the comparator is a
  consistent order, this is the list that ECMAScript requires of \<^verbatim>\<open>Array.prototype.sort\<close>.
\<close>

fun insertBy :: "('a \<Rightarrow> 'a \<Rightarrow> jsnum) \<Rightarrow> 'a \<Rightarrow> 'a list \<Rightarrow> 'a list" where
  "insertBy cmp x [] = [x]"
| "insertBy cmp x (y # ys) =
     (if js_gt_zero (cmp x y) then y # insertBy cmp x ys else x # y # ys)"

definition stableSort :: "('a \<Rightarrow> 'a \<Rightarrow> jsnum) \<Rightarrow> 'a list \<Rightarrow> 'a list" where
  "stableSort cmp xs = foldr (insertBy cmp) xs []"

text \<open>
  What ECMAScript requires of the engine's sort, for the comparator of the service: the
  result holds the elements of the list, and where every discount is a number, so that
  the comparator is a consistent order, it is the stably sorted list.
\<close>

definition permutes :: "arraySort \<Rightarrow> bool" where
  "permutes engineSort = (\<forall>xs. mset (engineSort compareDiscount xs) = mset xs)"

definition conformingSort :: "arraySort \<Rightarrow> bool" where
  "conformingSort engineSort =
     (permutes engineSort
      \<and> (\<forall>xs. allNumbers xs \<longrightarrow>
            engineSort compareDiscount xs = stableSort compareDiscount xs))"

section \<open>Example carts and coupons\<close>

definition mkItem :: "string \<Rightarrow> int \<Rightarrow> int \<Rightarrow> string option \<Rightarrow> CartItem" where
  "mkItem pid q p c =
     \<lparr>product_id = pid, quantity = q, price = p, category = c, total_discount = None,
      final_price = None, freeQuantity = None, appliedCouponIds = None\<rparr>"

definition mkCart :: "CartItem list \<Rightarrow> int \<Rightarrow> Cart" where
  "mkCart its t =
     \<lparr>cart_id = None, items = its, totalAmount = t, discountedAmount = None, subTotal = None\<rparr>"

definition noConditions :: CouponConditions where
  "noConditions =
     \<lparr>minCartValue = None, maxCartValue = None, minItems = None, productIds = None,
      categories = None, minQuantity = None, buyProducts = None, getProducts = None,
      repetitionLimit = None\<rparr>"

definition mkCoupon :: "string \<Rightarrow> string \<Rightarrow> CouponConditions \<Rightarrow> DiscountDetails \<Rightarrow> Coupon" where
  "mkCoupon cid t cond dd =
     \<lparr>coupon_id = cid, coupon_name = cid, coupon_type = t, isActive = True, expiryDate = None,
      usageLimit = None, usedCount = 0, conditions = cond, discountDetails = dd\<rparr>"

text \<open>Scenario A: a cart of 500 and a cart-wide coupon of 10 percent.\<close>

definition cartA :: Cart where
  "cartA = mkCart [mkItem ''P1'' 1 500 None] 500"

definition couponA :: Coupon where
  "couponA = mkCoupon ''SAVE10'' ''cart'' (noConditions\<lparr>minCartValue := Some 100\<rparr>)
     (Percentage 10 None)"

text \<open>A cart of 300 and a cart-wide coupon of a fixed 500.\<close>

definition cart300 :: Cart where
  "cart300 = mkCart [mkItem ''P1'' 1 300 None] 300"

definition couponFixed500 :: Coupon where
  "couponFixed500 = mkCoupon ''FLAT500'' ''cart'' (noConditions\<lparr>minCartValue := Some 100\<rparr>)
     (Fixed 500)"

text \<open>A cart-wide coupon of a fixed 50.\<close>

definition couponFixed50 :: Coupon where
  "couponFixed50 = mkCoupon ''FLAT50'' ''cart'' (noConditions\<lparr>minCartValue := Some 100\<rparr>)
     (Fixed 50)"

text \<open>Scenario C: one Electronics item of 50000 and a 20 percent coupon on the category.\<close>

definition cartC :: Cart where
  "cartC = mkCart [mkItem ''LAPTOP_001'' 1 50000 (Some ''Electronics'')] 50000"

definition couponC :: Coupon where
  "couponC = mkCoupon ''ELEC20'' ''Product''
     (noConditions\<lparr>categories := Some [''Electronics'']\<rparr>) (Percentage 20 None)"

text \<open>
  Scenario D: buy 2 of A, get 1 of B free, at most twice; the cart holds 5 of A (at 100)
  and 1 of B (at 300).
\<close>

definition cartD :: Cart where
  "cartD = mkCart [mkItem ''A'' 5 100 None, mkItem ''B'' 1 300 None] 800"

definition bxgyConditions :: "ProductQuantity list \<Rightarrow> ProductQuantity list \<Rightarrow> int \<Rightarrow> CouponConditions" where
  "bxgyConditions buys gets limit =
     noConditions\<lparr>buyProducts := Some buys, getProducts := Some gets,
                  repetitionLimit := Some limit\<rparr>"

definition couponD :: Coupon where
  "couponD = mkCoupon ''B2G1'' ''BxGy''
     (bxgyConditions [\<lparr>productId = ''A'', pquantity = 2\<rparr>] [\<lparr>productId = ''B'', pquantity = 1\<rparr>] 2)
     FreeProduct"

text \<open>The same deal with a buy requirement of quantity 0, and with no buy requirement.\<close>

definition couponBuy0 :: Coupon where
  "couponBuy0 = mkCoupon ''B0G1'' ''BxGy''
     (bxgyConditions [\<lparr>productId = ''A'', pquantity = 0\<rparr>] [\<lparr>productId = ''B'', pquantity = 1\<rparr>] 2)
     FreeProduct"

definition couponNoBuy :: Coupon where
  "couponNoBuy = mkCoupon ''G1'' ''BxGy''
     (bxgyConditions [] [\<lparr>productId = ''B'', pquantity = 1\<rparr>] 2) FreeProduct"

text \<open>A coupon whose type tag names a property of \<^verbatim>\<open>Object.prototype\<close>, and one whose tag names nothing.\<close>

definition couponToString :: Coupon where
  "couponToString = couponFixed50\<lparr>coupon_type := ''toString''\<rparr>"

definition couponVoucher :: Coupon where
  "couponVoucher = couponFixed50\<lparr>coupon_type := ''voucher''\<rparr>"

text \<open>A 20 percent coupon on the product of Scenario C.\<close>

definition couponLaptop :: Coupon where
  "couponLaptop = mkCoupon ''LAP20'' ''Product''
     (noConditions\<lparr>productIds := Some [''LAPTOP_001'']\<rparr>) (Percentage 20 None)"

text \<open>Scenario E: a coupon whose expiry instant is before the evaluation time.\<close>

definition couponExpired :: Coupon where
  "couponExpired = couponFixed50\<lparr>expiryDate := Some 1000\<rparr>"

definition storeOf :: "Coupon list \<Rightarrow> redis" where
  "storeOf coupons = map_of (map (\<lambda>coupon. (couponKey (coupon_id coupon), coupon)) coupons)"

section \<open>Cart-wide discounts\<close>

text \<open>
  The percentage branch of the cart-wide handler returns one hundredth of the cart total
  whatever the coupon's rate is.
\<close>

lemma CartWise_percentage_ignores_rate:
  "CartWise_calculateDiscount cart (coupon\<lparr>discountDetails := Percentage r None\<rparr>)
     = totalAmount cart div 100"
  by (simp add: CartWise_calculateDiscount_def cap_opt_def)

text \<open>
  Claim C1 says that a cart-wide percentage coupon of rate \<open>r\<close> without a cap discounts
  \<open>floor (T * r / 100)\<close>, so that a cart of 500 under a 10 percent coupon is discounted by
  50 and left with a subtotal of 450. On the code the cart of Scenario A is discounted by
  5 and left with 495: the handler computes \<^verbatim>\<open>Math.floor(cart.totalAmount/100)\<close> and the
  rate is missing from the product.
\<close>

theorem scenario_A_on_code:
  "CartWise_calculateDiscount cartA couponA = 5
   \<and> CartWise_isApplicable cartA [couponA]
       = [\<lparr>ac_id = ''SAVE10'', ac_discount = Fin 5, ac_type = ''cart''\<rparr>]
   \<and> discountedAmount (CartWise_applyDiscount cartA couponA) = Some (Fin 5)
   \<and> subTotal (CartWise_applyDiscount cartA couponA) = Some (Fin 495)"
  by code_simp

text \<open>The fixed branch returns the coupon's value whatever the cart total is.\<close>

lemma CartWise_fixed_ignores_total:
  "CartWise_calculateDiscount cart (coupon\<lparr>discountDetails := Fixed v\<rparr>) = v"
  by (simp add: CartWise_calculateDiscount_def)

text \<open>
  Claim C2 says that a discount never exceeds the amount it is taken from, a fixed
  cart-wide discount above the cart total being clamped to the total. On the code a
  fixed discount of 500 on a cart of 300 stays 500, the coupon is offered as a candidate
  with that amount, and applying it leaves a subtotal of -200: the fixed branch returns
  \<^verbatim>\<open>Math.floor(couponDiscount.value)\<close> and nothing compares it with the total.
\<close>

theorem fixed_discount_not_clamped:
  "totalAmount cart300 = 300
   \<and> CartWise_calculateDiscount cart300 couponFixed500 = 500
   \<and> CartWise_isApplicable cart300 [couponFixed500]
       = [\<lparr>ac_id = ''FLAT500'', ac_discount = Fin 500, ac_type = ''cart''\<rparr>]
   \<and> subTotal (CartWise_applyDiscount cart300 couponFixed500) = Some (Fin (- 200))"
  by code_simp

section \<open>Product-scoped matching\<close>

lemma isMatch_matched:
  assumes "[] \<notin> eligibleCategories cond"
  shows "isMatch cond item = matched cond item"
  using assms
  by (auto simp: isMatch_def isProductMatch_def isCategoryMatch_def matched_def
      eligibleProductIds_def eligibleCategories_def split: option.splits)

lemma ProductWise_sumDiscount_filter:
  "ProductWise_sumDiscount m dd its = sum_list (map (ProductWise_itemDiscount dd) (filter m its))"
  by (induction its) simp_all

lemma ProductWise_applyLoop_map:
  "fst (ProductWise_applyLoop m dd cid its)
     = map (\<lambda>item. if m item then ProductWise_applyItem dd cid item else item) its"
  by (induction its) (auto split: prod.splits)

lemma ProductWise_scan_filter:
  "ProductWise_scan m its (found, qty)
     = (found \<or> filter m its \<noteq> [], qty + sum_list (map quantity (filter m its)))"
  by (induction its arbitrary: found qty) simp_all

text \<open>
  Claim C4. For a product-scoped coupon none of whose eligible categories is the empty
  string (\<^verbatim>\<open>item.category && ...\<close> takes an empty category for no category), the items
  that the handler counts as matched are those whose product identifier is in the
  coupon's set of eligible product identifiers or whose category is in its set of
  eligible categories: they are the items whose discounts \<^verbatim>\<open>calculateDiscount\<close> adds up,
  the items that \<^verbatim>\<open>applyDiscount\<close> writes, and the items that \<^verbatim>\<open>isApplicable\<close> looks for
  and whose quantities it compares with the minimum quantity.
\<close>

theorem ProductWise_matching:
  assumes "[] \<notin> eligibleCategories (conditions k)"
  shows "ProductWise_calculateDiscount cart k
           = sum_list (map (ProductWise_itemDiscount (discountDetails k))
               (filter (matched (conditions k)) (items cart)))
         \<and> items (ProductWise_applyDiscount cart k)
           = map (\<lambda>item. if matched (conditions k) item
                          then ProductWise_applyItem (discountDetails k) (coupon_id k) item
                          else item) (items cart)
         \<and> ProductWise_candidate cart k
           = (if filter (matched (conditions k)) (items cart) = [] then []
              else if truthy (minQuantity (conditions k))
                      \<and> lt_opt (sum_list (map quantity
                                  (filter (matched (conditions k)) (items cart))))
                            (minQuantity (conditions k)) then []
              else if ProductWise_calculateDiscount cart k \<le> 0 then []
              else [\<lparr>ac_id = coupon_id k,
                     ac_discount = Fin (ProductWise_calculateDiscount cart k),
                     ac_type = ''product''\<rparr>])"
proof -
  have m: "isMatch (conditions k) = matched (conditions k)"
    using isMatch_matched [OF assms] by (simp add: fun_eq_iff)
  have "items (ProductWise_applyDiscount cart k)
      = fst (ProductWise_applyLoop (isMatch (conditions k)) (discountDetails k) (coupon_id k)
          (items cart))"
    by (simp add: ProductWise_applyDiscount_def Let_def split: prod.splits)
  moreover have "ProductWise_calculateDiscount cart k
      = sum_list (map (ProductWise_itemDiscount (discountDetails k))
          (filter (matched (conditions k)) (items cart)))"
    by (simp add: m ProductWise_calculateDiscount_def ProductWise_sumDiscount_filter)
  moreover have "ProductWise_candidate cart k
           = (if filter (matched (conditions k)) (items cart) = [] then []
              else if truthy (minQuantity (conditions k))
                      \<and> lt_opt (sum_list (map quantity
                                  (filter (matched (conditions k)) (items cart))))
                            (minQuantity (conditions k)) then []
              else if ProductWise_calculateDiscount cart k \<le> 0 then []
              else [\<lparr>ac_id = coupon_id k,
                     ac_discount = Fin (ProductWise_calculateDiscount cart k),
                     ac_type = ''product''\<rparr>])"
    by (simp add: m ProductWise_candidate_def ProductWise_scan_filter Let_def)
  ultimately show ?thesis
    by (simp add: m ProductWise_applyLoop_map)
qed

text \<open>
  Scenario C: the item matches by its category alone, the discount is 10000 and the final
  price 40000.
\<close>

theorem ProductWise_matching_witness:
  "[] \<notin> eligibleCategories (conditions couponC)
   \<and> product_id (hd (items cartC)) \<notin> eligibleProductIds (conditions couponC)
   \<and> filter (matched (conditions couponC)) (items cartC) = items cartC
   \<and> ProductWise_calculateDiscount cartC couponC = 10000
   \<and> map ac_discount (ProductWise_isApplicable cartC [couponC]) = [Fin 10000]
   \<and> map final_price (items (ProductWise_applyDiscount cartC couponC)) = [Some (Fin 40000)]
   \<and> subTotal (ProductWise_applyDiscount cartC couponC) = Some (Fin 40000)"
proof -
  have a: "[] \<notin> eligibleCategories (conditions couponC)" by code_simp
  have b: "product_id (hd (items cartC)) \<notin> eligibleProductIds (conditions couponC)"
    by code_simp
  have f: "filter (matched (conditions couponC)) (items cartC) = items cartC" by code_simp
  have v: "sum_list (map (ProductWise_itemDiscount (discountDetails couponC)) (items cartC))
      = 10000" by code_simp
  have w: "map final_price
      (map (\<lambda>item. if matched (conditions couponC) item
                    then ProductWise_applyItem (discountDetails couponC) (coupon_id couponC) item
                    else item) (items cartC)) = [Some (Fin 40000)]" by code_simp
  have r: "map ac_discount (ProductWise_isApplicable cartC [couponC]) = [Fin 10000]
    \<and> subTotal (ProductWise_applyDiscount cartC couponC) = Some (Fin 40000)" by code_simp
  from ProductWise_matching [OF a, of cartC] f v w
  have "ProductWise_calculateDiscount cartC couponC = 10000
    \<and> map final_price (items (ProductWise_applyDiscount cartC couponC)) = [Some (Fin 40000)]"
    by simp
  with a b f r show ?thesis by simp
qed

section \<open>Buy-X-get-Y with no required quantity\<close>

text \<open>
  Claim C7 says that a buy-X-get-Y coupon whose required buy quantity is 0 is never
  applicable. The division by that quantity is not guarded. With a buy entry of quantity
  0 whose product is in the cart the quotient is \<^verbatim>\<open>Infinity\<close>, the repetitions are the
  repetition limit, and the coupon is a candidate worth the free items; with no buy entry
  at all the quotient is NaN, no test of \<^verbatim>\<open>isApplicable\<close> holds for NaN, and the coupon is
  a candidate whose discount is NaN.
\<close>

theorem zero_buy_requirement_applicable:
  "map_sum id requiredBuyQuantity (calculateBxGyParams cartD (conditions couponBuy0)) = Inr 0
   \<and> BxGy_isApplicable cartD [couponBuy0]
       = Inr [\<lparr>ac_id = ''B0G1'', ac_discount = Fin 300, ac_type = ''BxGy''\<rparr>]
   \<and> map_sum id requiredBuyQuantity (calculateBxGyParams cartD (conditions couponNoBuy)) = Inr 0
   \<and> BxGy_isApplicable cartD [couponNoBuy]
       = Inr [\<lparr>ac_id = ''G1'', ac_discount = NaN, ac_type = ''BxGy''\<rparr>]"
  by code_simp

section \<open>The buy-X-get-Y distribution\<close>

lemma foldl_sumQuantity: "foldl (\<lambda>s p. s + pquantity p) a ps = a + sum_list (map pquantity ps)"
  by (induction ps arbitrary: a) simp_all

lemma sumQuantity_sum_list: "sumQuantity ps = sum_list (map pquantity ps)"
  by (simp add: sumQuantity_def foldl_sumQuantity)

lemma quantityInCart_sum_list:
  "quantityInCart its ps acc = acc + sum_list (map (quantityOf its) ps)"
  by (induction ps arbitrary: acc) (simp_all add: quantityOf_def split: option.splits)

lemma findItem_mem: "findItem its pid = Some x \<Longrightarrow> x \<in> set its"
  by (auto simp: findItem_def find_Some_iff)

lemma grants_zero:
  assumes "\<forall>item \<in> set its. 0 \<le> quantity item"
  shows "grantsValue (grants its 0 gs) = 0"
proof (induction gs)
  case Nil
  then show ?case by (simp add: grantsValue_def)
next
  case (Cons g gs)
  show ?case
  proof (cases "findItem its (productId g)")
    case None
    with Cons show ?thesis by simp
  next
    case (Some x)
    with assms findItem_mem have "0 \<le> quantity x" by blast
    with Some Cons show ?thesis by (simp add: grantsValue_def)
  qed
qed

lemma BxGy_discountLoop_grants:
  assumes "\<forall>item \<in> set its. 0 \<le> quantity item"
  shows "BxGy_discountLoop its gs (Fin r) (Fin t) = Fin (t + grantsValue (grants its r gs))"
proof (induction gs arbitrary: r t)
  case Nil
  then show ?case by (simp add: grantsValue_def)
next
  case (Cons g gs)
  show ?case
  proof (cases "r = 0")
    case True
    with grants_zero [OF assms, of "g # gs"] show ?thesis by (simp add: js_is_zero_def)
  next
    case False
    show ?thesis
    proof (cases "findItem its (productId g)")
      case None
      with False Cons.IH show ?thesis by (simp add: js_is_zero_def)
    next
      case (Some x)
      with False Cons.IH [of "r - min (quantity x) r" "t + min (quantity x) r * price x"]
      show ?thesis
        by (simp add: js_is_zero_def js_sub_def Let_def grantsValue_def min.commute)
    qed
  qed
qed

text \<open>
  Claim C3. For a buy-X-get-Y coupon whose required buy quantity is positive, and a cart
  whose quantities are not negative (the data model has them positive), the handler's
  repetitions are the floored quotient of the buy quantity in the cart by the required
  quantity, at most the repetition limit; the entitlement is the repetitions times the
  get quantities; and the discount is the value of the grants, each get entry in the
  declared order being granted the smaller of what remains of the entitlement and the
  quantity the cart holds of its product. The loop's \<^verbatim>\<open>break\<close>, its \<^verbatim>\<open>continue\<close> and the
  early return for no repetition change nothing of that value, and every number stays
  finite.
\<close>

theorem BxGy_distribution:
  assumes "buyProducts (conditions k) = Some buys"
    and "getProducts (conditions k) = Some gets"
    and "repetitionLimit (conditions k) = Some limit"
    and "0 < sum_list (map pquantity buys)"
    and "\<forall>item \<in> set (items cart). 0 \<le> quantity item"
  shows "calculateBxGyParams cart (conditions k)
           = Inr \<lparr>requiredBuyQuantity = sum_list (map pquantity buys),
                  totalBuyQuantityInCart = sum_list (map (quantityOf (items cart)) buys),
                  actualRepetitions = Fin (repetitions (items cart) buys limit),
                  requiredGetQuantity = sum_list (map pquantity gets)\<rparr>
         \<and> BxGy_calculateDiscount cart k
           = Inr (Fin (grantsValue
                (grants (items cart) (entitlement (items cart) buys gets limit) gets)))"
proof -
  have p: "calculateBxGyParams cart (conditions k)
           = Inr \<lparr>requiredBuyQuantity = sum_list (map pquantity buys),
                  totalBuyQuantityInCart = sum_list (map (quantityOf (items cart)) buys),
                  actualRepetitions = Fin (repetitions (items cart) buys limit),
                  requiredGetQuantity = sum_list (map pquantity gets)\<rparr>"
    using assms(1-4)
    by (simp add: calculateBxGyParams_def sumQuantity_sum_list quantityInCart_sum_list
        js_floor_div_def num_opt_def repetitions_def Let_def)
  have "BxGy_calculateDiscount cart k
           = Inr (Fin (grantsValue
                (grants (items cart) (entitlement (items cart) buys gets limit) gets)))"
  proof (cases "repetitions (items cart) buys limit = 0")
    case True
    with p grants_zero [OF assms(5), of gets] show ?thesis
      by (simp add: BxGy_calculateDiscount_def js_is_zero_def entitlement_def)
  next
    case False
    with p assms(2) BxGy_discountLoop_grants [OF assms(5), of gets
        "entitlement (items cart) buys gets limit" 0]
    show ?thesis
      by (simp add: BxGy_calculateDiscount_def js_is_zero_def entitlement_def js_floor_def)
  qed
  with p show ?thesis by simp
qed

text \<open>
  Scenario D: two repetitions, an entitlement of 2, one B in the cart; one B is granted
  and the discount is the price of one B.
\<close>

theorem BxGy_distribution_witness:
  "buyProducts (conditions couponD) = Some [\<lparr>productId = ''A'', pquantity = 2\<rparr>]
   \<and> getProducts (conditions couponD) = Some [\<lparr>productId = ''B'', pquantity = 1\<rparr>]
   \<and> repetitionLimit (conditions couponD) = Some 2
   \<and> 0 < sum_list (map pquantity [\<lparr>productId = ''A'', pquantity = 2\<rparr>])
   \<and> list_all (\<lambda>item. 0 \<le> quantity item) (items cartD)
   \<and> repetitions (items cartD) [\<lparr>productId = ''A'', pquantity = 2\<rparr>] 2 = 2
   \<and> map snd (grants (items cartD) 2 [\<lparr>productId = ''B'', pquantity = 1\<rparr>]) = [1]
   \<and> BxGy_calculateDiscount cartD couponD = Inr (Fin 300)"
proof -
  have b: "buyProducts (conditions couponD) = Some [\<lparr>productId = ''A'', pquantity = 2\<rparr>]"
    by code_simp
  have g: "getProducts (conditions couponD) = Some [\<lparr>productId = ''B'', pquantity = 1\<rparr>]"
    by code_simp
  have l: "repetitionLimit (conditions couponD) = Some 2" by code_simp
  have pos: "0 < sum_list (map pquantity [\<lparr>productId = ''A'', pquantity = 2\<rparr>])" by simp
  have nn: "\<forall>item \<in> set (items cartD). 0 \<le> quantity item"
    by (simp add: cartD_def mkCart_def mkItem_def)
  have r: "repetitions (items cartD) [\<lparr>productId = ''A'', pquantity = 2\<rparr>] 2 = 2" by code_simp
  have e: "entitlement (items cartD) [\<lparr>productId = ''A'', pquantity = 2\<rparr>]
             [\<lparr>productId = ''B'', pquantity = 1\<rparr>] 2 = 2" by code_simp
  have gr: "map snd (grants (items cartD) 2 [\<lparr>productId = ''B'', pquantity = 1\<rparr>]) = [1]"
    by code_simp
  have v: "grantsValue (grants (items cartD) 2 [\<lparr>productId = ''B'', pquantity = 1\<rparr>]) = 300"
    by code_simp
  from BxGy_distribution [OF b g l pos nn] e v
  have "BxGy_calculateDiscount cartD couponD = Inr (Fin 300)" by simp
  with b g l pos nn r gr show ?thesis by (simp add: list_all_iff)
qed

text \<open>Applying the coupon of Scenario D writes a free quantity of 1 into the item B.\<close>

lemma scenario_D_apply:
  "map freeQuantity (items (projr (BxGy_applyDiscount cartD couponD))) = [None, Some (Fin 1)]
   \<and> discountedAmount (projr (BxGy_applyDiscount cartD couponD)) = Some (Fin 300)"
  by code_simp

section \<open>What an application leaves\<close>

text \<open>
  The handlers write the derived fields of an item and never its product, quantity, price
  or category, and the amount that \<^verbatim>\<open>applyDiscount\<close> of the buy-X-get-Y handler records is
  the amount that \<^verbatim>\<open>calculateDiscount\<close> returns.
\<close>

lemma coreOf_BxGy_applyItem [simp]: "coreOf (BxGy_applyItem cid fq item) = coreOf item"
  by (simp add: coreOf_def BxGy_applyItem_def Let_def)

lemma coreOf_ProductWise_applyItem [simp]: "coreOf (ProductWise_applyItem dd cid item) = coreOf item"
  by (simp add: coreOf_def ProductWise_applyItem_def Let_def)

lemma coreOf_eqD:
  "coreOf a = coreOf b \<Longrightarrow>
   product_id a = product_id b \<and> quantity a = quantity b \<and> price a = price b
   \<and> category a = category b"
  by (simp add: coreOf_def)

lemma findIndex_Some:
  "findIndex its pid = Some i \<Longrightarrow> i < length its \<and> findItem its pid = Some (its ! i)"
proof (induction its arbitrary: i)
  case Nil
  then show ?case by simp
next
  case (Cons a its)
  then show ?case
    by (auto simp: findItem_def split: if_splits option.splits)
qed

lemma findIndex_None: "findIndex its pid = None \<Longrightarrow> findItem its pid = None"
  by (induction its) (auto simp: findItem_def split: if_splits option.splits)

lemma findIndex_core:
  "map coreOf its' = map coreOf its \<Longrightarrow> findIndex its' pid = findIndex its pid"
proof (induction its arbitrary: its')
  case Nil
  then show ?case by simp
next
  case (Cons a its)
  then obtain b bs where its': "its' = b # bs" by (cases its') auto
  with Cons.prems have "coreOf b = coreOf a" "map coreOf bs = map coreOf its" by auto
  with Cons.IH [of bs] its' show ?case by (auto dest: coreOf_eqD)
qed

lemma findItem_core:
  assumes "map coreOf its' = map coreOf its"
  shows "map_option coreOf (findItem its' pid) = map_option coreOf (findItem its pid)"
proof (cases "findIndex its pid")
  case None
  with findIndex_core [OF assms, of pid] have "findIndex its' pid = None" by simp
  with None show ?thesis by (simp add: findIndex_None)
next
  case (Some i)
  with findIndex_core [OF assms, of pid] have s': "findIndex its' pid = Some i" by simp
  from findIndex_Some [OF Some] findIndex_Some [OF s']
  have i: "i < length its" "i < length its'"
    and f: "findItem its pid = Some (its ! i)" "findItem its' pid = Some (its' ! i)"
    by simp_all
  from assms have "map coreOf its' ! i = map coreOf its ! i" by simp
  with i have "coreOf (its' ! i) = coreOf (its ! i)" by simp
  with f show ?thesis by simp
qed

lemma map_core_update:
  "i < length its \<Longrightarrow> coreOf x = coreOf (its ! i) \<Longrightarrow> map coreOf (its[i := x]) = map coreOf its"
  by (simp add: map_update list_update_same_conv)

lemma BxGy_applyLoop_core:
  "map coreOf (fst (BxGy_applyLoop cid gs its remaining totalDiscount)) = map coreOf its"
proof (induction gs arbitrary: its remaining totalDiscount)
  case Nil
  then show ?case by simp
next
  case (Cons g gs)
  show ?case
  proof (cases "findIndex its (productId g)")
    case None
    with Cons.IH show ?thesis by simp
  next
    case (Some i)
    from findIndex_Some [OF Some] have i: "i < length its" by simp
    with Some Cons.IH show ?thesis
      by (simp add: Let_def map_core_update)
  qed
qed

lemma BxGy_applyLoop_total:
  "map coreOf its' = map coreOf its \<Longrightarrow>
   snd (BxGy_applyLoop cid gs its' remaining totalDiscount)
     = BxGy_discountLoop its gs remaining totalDiscount"
proof (induction gs arbitrary: its' remaining totalDiscount)
  case Nil
  then show ?case by simp
next
  case (Cons g gs)
  show ?case
  proof (cases "findIndex its' (productId g)")
    case None
    then have "findItem its' (productId g) = None" by (rule findIndex_None)
    with findItem_core [OF Cons.prems, of "productId g"]
    have "findItem its (productId g) = None" by simp
    with None Cons.IH [OF Cons.prems] show ?thesis by simp
  next
    case (Some i)
    from findIndex_Some [OF Some]
    have i: "i < length its'" and f': "findItem its' (productId g) = Some (its' ! i)" by simp_all
    from findItem_core [OF Cons.prems, of "productId g"] f'
    obtain x where f: "findItem its (productId g) = Some x" and cx: "coreOf x = coreOf (its' ! i)"
      by (cases "findItem its (productId g)") auto
    from cx have q: "quantity x = quantity (its' ! i)" "price x = price (its' ! i)"
      by (auto dest: coreOf_eqD)
    let ?fq = "js_min (Fin (quantity (its' ! i))) remaining"
    have "map coreOf (its'[i := BxGy_applyItem cid ?fq (its' ! i)]) = map coreOf its"
      using i Cons.prems by (simp add: map_core_update)
    from Cons.IH [OF this] Some f q show ?thesis
      by (simp add: Let_def)
  qed
qed

lemma quantityInCart_core:
  "map coreOf its' = map coreOf its \<Longrightarrow> quantityInCart its' ps acc = quantityInCart its ps acc"
proof (induction ps arbitrary: acc)
  case Nil
  then show ?case by simp
next
  case (Cons p ps)
  from findItem_core [OF Cons.prems, of "productId p"] Cons.IH [OF Cons.prems]
  show ?case
    by (cases "findItem its' (productId p)"; cases "findItem its (productId p)")
       (auto dest: coreOf_eqD)
qed

lemma calculateBxGyParams_core:
  assumes "map coreOf (items cart') = map coreOf (items cart)"
  shows "calculateBxGyParams cart' cond = calculateBxGyParams cart cond"
  by (simp add: calculateBxGyParams_def quantityInCart_core [OF assms] split: option.splits)

lemma BxGy_applyDiscount_frame:
  assumes "BxGy_applyDiscount cart k = Inr c1"
  shows "map coreOf (items c1) = map coreOf (items cart) \<and> totalAmount c1 = totalAmount cart"
proof (cases "calculateBxGyParams cart (conditions k)")
  case (Inl e)
  with assms show ?thesis by (simp add: BxGy_applyDiscount_def)
next
  case (Inr params)
  show ?thesis
  proof (cases "js_is_zero (actualRepetitions params)")
    case True
    with Inr assms show ?thesis by (simp add: BxGy_applyDiscount_def)
  next
    case False
    with Inr assms obtain gets where g: "getProducts (conditions k) = Some gets"
      by (cases "getProducts (conditions k)") (auto simp: BxGy_applyDiscount_def)
    let ?r = "BxGy_applyLoop (coupon_id k) gets (items cart)
                (js_mul (actualRepetitions params) (Fin (requiredGetQuantity params))) (Fin 0)"
    from Inr False g assms have "items c1 = fst ?r" "totalAmount c1 = totalAmount cart"
      by (auto simp: BxGy_applyDiscount_def Let_def split: prod.splits)
    with BxGy_applyLoop_core show ?thesis by simp
  qed
qed

lemma BxGy_applyDiscount_amount:
  assumes "calculateBxGyParams cart (conditions k) = Inr params"
    "\<not> js_is_zero (actualRepetitions params)"
    "getProducts (conditions k) = Some gets"
    "map coreOf (items cart) = map coreOf its"
  shows "\<exists>c1. BxGy_applyDiscount cart k = Inr c1
     \<and> discountedAmount c1 = Some (js_floor (BxGy_discountLoop its gets
          (js_mul (actualRepetitions params) (Fin (requiredGetQuantity params))) (Fin 0)))
     \<and> subTotal c1 = Some (js_sub (Fin (totalAmount cart)) (js_floor (BxGy_discountLoop its gets
          (js_mul (actualRepetitions params) (Fin (requiredGetQuantity params))) (Fin 0))))"
  using assms BxGy_applyLoop_total [OF assms(4), of "coupon_id k" gets
      "js_mul (actualRepetitions params) (Fin (requiredGetQuantity params))" "Fin 0"]
  by (auto simp: BxGy_applyDiscount_def Let_def split: prod.splits)

lemma BxGy_applyDiscount_twice:
  assumes "BxGy_applyDiscount cart k = Inr c1"
  shows "\<exists>c2. BxGy_applyDiscount c1 k = Inr c2
     \<and> discountedAmount c2 = discountedAmount c1 \<and> subTotal c2 = subTotal c1"
proof -
  from BxGy_applyDiscount_frame [OF assms]
  have core: "map coreOf (items c1) = map coreOf (items cart)"
    and tot: "totalAmount c1 = totalAmount cart" by simp_all
  from assms obtain params where p: "calculateBxGyParams cart (conditions k) = Inr params"
    by (cases "calculateBxGyParams cart (conditions k)") (auto simp: BxGy_applyDiscount_def)
  with calculateBxGyParams_core [OF core]
  have p1: "calculateBxGyParams c1 (conditions k) = Inr params" by simp
  show ?thesis
  proof (cases "js_is_zero (actualRepetitions params)")
    case True
    with p assms have "c1 = cart" by (simp add: BxGy_applyDiscount_def)
    with assms show ?thesis by simp
  next
    case False
    with p assms obtain gets where g: "getProducts (conditions k) = Some gets"
      by (cases "getProducts (conditions k)") (auto simp: BxGy_applyDiscount_def)
    from BxGy_applyDiscount_amount [OF p False g refl] assms
    have a1: "discountedAmount c1 = Some (js_floor (BxGy_discountLoop (items cart) gets
          (js_mul (actualRepetitions params) (Fin (requiredGetQuantity params))) (Fin 0)))"
      and s1: "subTotal c1 = Some (js_sub (Fin (totalAmount cart)) (js_floor (BxGy_discountLoop (items cart) gets
          (js_mul (actualRepetitions params) (Fin (requiredGetQuantity params))) (Fin 0))))"
      by auto
    from BxGy_applyDiscount_amount [OF p1 False g core] a1 s1 tot
    show ?thesis by auto
  qed
qed

lemma BxGy_candidate_params:
  assumes "BxGy_candidate cart k = Inr (a # as)"
  shows "\<exists>params gets. calculateBxGyParams cart (conditions k) = Inr params
           \<and> \<not> js_is_zero (actualRepetitions params)
           \<and> getProducts (conditions k) = Some gets"
  using assms
  by (auto simp: BxGy_candidate_def Let_def split: sum.splits if_splits option.splits)

text \<open>
  Claim C8 says that after \<^verbatim>\<open>applyDiscount\<close> on a cart and an eligible coupon the cart
  satisfies \<open>subTotal = totalAmount - discountedAmount\<close> and every touched item
  \<open>final_price = quantity * price - total_discount\<close>. The buy-X-get-Y coupon without buy
  entries is offered as a candidate for the cart of Scenario D (the unguarded division of
  \<^verbatim>\<open>calculateBxGyParams\<close> makes its repetitions NaN), \<^verbatim>\<open>applyCoupon\<close> accepts it, and the
  cart it returns has NaN as discounted amount and as subtotal, and NaN as total discount
  and as final price of the item B: no equation holds of them.
\<close>

theorem invariants_fail_on_NaN:
  "BxGy_isApplicable cartD [couponNoBuy]
     = Inr [\<lparr>ac_id = ''G1'', ac_discount = NaN, ac_type = ''BxGy''\<rparr>]
   \<and> map_sum id discountedAmount (fst (applyCoupon 2000 (storeOf [couponNoBuy]) cartD ''G1''))
       = Inr (Some NaN)
   \<and> map_sum id subTotal (fst (applyCoupon 2000 (storeOf [couponNoBuy]) cartD ''G1''))
       = Inr (Some NaN)
   \<and> map_sum id cartInvariant (BxGy_applyDiscount cartD couponNoBuy) = Inr False
   \<and> map_sum id (\<lambda>c. map total_discount (items c)) (BxGy_applyDiscount cartD couponNoBuy)
       = Inr [None, Some NaN]
   \<and> map_sum id (\<lambda>c. map final_price (items c)) (BxGy_applyDiscount cartD couponNoBuy)
       = Inr [None, Some NaN]
   \<and> map_sum id (\<lambda>c. map itemInvariant (items c)) (BxGy_applyDiscount cartD couponNoBuy)
       = Inr [False, False]"
  by code_simp

section \<open>A second application\<close>

lemma ProductWise_applyLoop_core:
  "map coreOf (fst (ProductWise_applyLoop m dd cid its)) = map coreOf its"
  by (induction its) (auto split: prod.splits)

lemma ProductWise_itemDiscount_core:
  "coreOf a = coreOf b \<Longrightarrow> ProductWise_itemDiscount dd a = ProductWise_itemDiscount dd b"
  by (drule coreOf_eqD) (simp add: ProductWise_itemDiscount_def Let_def split: DiscountDetails.splits)

lemma isMatch_core:
  "coreOf a = coreOf b \<Longrightarrow> isMatch cond a = isMatch cond b"
  by (drule coreOf_eqD)
     (simp add: isMatch_def isProductMatch_def isCategoryMatch_def split: option.splits)

lemma ProductWise_applyLoop_total_core:
  assumes "\<And>a b. coreOf a = coreOf b \<Longrightarrow> m a = m b"
  shows "map coreOf its' = map coreOf its \<Longrightarrow>
   snd (ProductWise_applyLoop m dd cid its') = snd (ProductWise_applyLoop m dd cid its)"
proof (induction its arbitrary: its')
  case Nil
  then show ?case by simp
next
  case (Cons a its)
  then obtain b bs where its': "its' = b # bs" by (cases its') auto
  with Cons.prems have c: "coreOf b = coreOf a" and r: "map coreOf bs = map coreOf its" by auto
  from Cons.IH [OF r] its' assms [OF c] ProductWise_itemDiscount_core [OF c, of dd]
  show ?case by (auto split: prod.splits)
qed

lemma ProductWise_applyDiscount_twice:
  "discountedAmount (ProductWise_applyDiscount (ProductWise_applyDiscount cart k) k)
     = discountedAmount (ProductWise_applyDiscount cart k)
   \<and> subTotal (ProductWise_applyDiscount (ProductWise_applyDiscount cart k) k)
     = subTotal (ProductWise_applyDiscount cart k)"
  using ProductWise_applyLoop_total_core
    [of "isMatch (conditions k)", OF isMatch_core
        ProductWise_applyLoop_core
          [of "isMatch (conditions k)" "discountDetails k" "coupon_id k" "items cart"],
     of "discountDetails k" "coupon_id k"]
  by (auto simp: ProductWise_applyDiscount_def Let_def split: prod.splits)

lemma CartWise_applyDiscount_twice:
  "CartWise_applyDiscount (CartWise_applyDiscount cart k) k = CartWise_applyDiscount cart k"
  by (simp add: CartWise_applyDiscount_def CartWise_calculateDiscount_def Let_def
      split: DiscountDetails.splits)

text \<open>
  Claim C9, amended. The claim says that a second \<^verbatim>\<open>applyDiscount\<close> double-counts the
  discount. The handlers assign the amounts, they do not add to them: a second
  invocation on the resulting cart returns a cart that records the same discounted
  amount, the same subtotal and the same total as the first, for each of the three
  strategies; the cart-wide strategy returns the very same cart.
\<close>

theorem applyDiscount_twice_same_amounts:
  assumes "strategy_applyDiscount s cart k = Inr c1"
  shows "\<exists>c2. strategy_applyDiscount s c1 k = Inr c2
     \<and> discountedAmount c2 = discountedAmount c1 \<and> subTotal c2 = subTotal c1
     \<and> totalAmount c2 = totalAmount c1
     \<and> (s = CartWiseHandler \<longrightarrow> c2 = c1)"
proof (cases s)
  case CartWiseHandler
  with assms CartWise_applyDiscount_twice [of cart k] show ?thesis by auto
next
  case ProductWiseHandler
  have "totalAmount (ProductWise_applyDiscount c1 k) = totalAmount c1"
    by (simp add: ProductWise_applyDiscount_def Let_def split: prod.splits)
  with ProductWiseHandler assms ProductWise_applyDiscount_twice [of cart k]
  show ?thesis by auto
next
  case BxGyHandler
  with assms have "BxGy_applyDiscount cart k = Inr c1" by simp
  from BxGy_applyDiscount_twice [OF this] obtain c2 where
    c2: "BxGy_applyDiscount c1 k = Inr c2"
    and eq: "discountedAmount c2 = discountedAmount c1" "subTotal c2 = subTotal c1" by blast
  from BxGy_applyDiscount_frame [OF c2] have "totalAmount c2 = totalAmount c1" by simp
  with c2 eq BxGyHandler show ?thesis by simp
qed

theorem applyDiscount_twice_same_amounts_witness:
  "strategy_applyDiscount ProductWiseHandler cartC couponLaptop
     = Inr (ProductWise_applyDiscount cartC couponLaptop)
   \<and> discountedAmount (ProductWise_applyDiscount cartC couponLaptop) = Some (Fin 10000)
   \<and> discountedAmount (projr (strategy_applyDiscount ProductWiseHandler
        (ProductWise_applyDiscount cartC couponLaptop) couponLaptop)) = Some (Fin 10000)
   \<and> subTotal (projr (strategy_applyDiscount ProductWiseHandler
        (ProductWise_applyDiscount cartC couponLaptop) couponLaptop)) = Some (Fin 40000)"
proof -
  have a: "strategy_applyDiscount ProductWiseHandler cartC couponLaptop
     = Inr (ProductWise_applyDiscount cartC couponLaptop)" by simp
  have v: "discountedAmount (ProductWise_applyDiscount cartC couponLaptop) = Some (Fin 10000)
    \<and> subTotal (ProductWise_applyDiscount cartC couponLaptop) = Some (Fin 40000)" by code_simp
  from applyDiscount_twice_same_amounts [OF a] v
  have "discountedAmount (projr (strategy_applyDiscount ProductWiseHandler
        (ProductWise_applyDiscount cartC couponLaptop) couponLaptop)) = Some (Fin 10000)
   \<and> subTotal (projr (strategy_applyDiscount ProductWiseHandler
        (ProductWise_applyDiscount cartC couponLaptop) couponLaptop)) = Some (Fin 40000)"
    by auto
  with a v show ?thesis by simp
qed

text \<open>
  A cart-wide coupon of a fixed 50 on the cart of 500, and the product coupon on the cart
  of Scenario C: the second application records 50 and 10000 again, not 100 and 20000.
\<close>

theorem second_application_counterexample:
  "discountedAmount (CartWise_applyDiscount cartA couponFixed50) = Some (Fin 50)
   \<and> discountedAmount (CartWise_applyDiscount (CartWise_applyDiscount cartA couponFixed50)
        couponFixed50) = Some (Fin 50)
   \<and> subTotal (CartWise_applyDiscount (CartWise_applyDiscount cartA couponFixed50)
        couponFixed50) = Some (Fin 450)
   \<and> discountedAmount (ProductWise_applyDiscount cartC couponLaptop) = Some (Fin 10000)
   \<and> discountedAmount (ProductWise_applyDiscount (ProductWise_applyDiscount cartC couponLaptop)
        couponLaptop) = Some (Fin 10000)"
  by code_simp

text \<open>
  What a second application does change is the list of applied coupons of a touched
  item, which receives the identifier once more.
\<close>

lemma second_application_appends_id:
  "map appliedCouponIds
     (items (ProductWise_applyDiscount (ProductWise_applyDiscount cartC couponLaptop)
        couponLaptop)) = [Some [''LAP20'', ''LAP20'']]"
  by code_simp

section \<open>Applying one coupon\<close>

lemma isExpired_expiredAt:
  "expiryDate c \<noteq> Some 0 \<Longrightarrow> isExpired now c = expiredAt now c"
  by (auto simp: isExpired_def expiredAt_def truthy_def gt_opt_def split: option.splits)

lemma usageLimitExceeded_reached:
  "usageLimit c \<noteq> Some 0 \<Longrightarrow> usageLimitExceeded c = reachedUsageLimit c"
  by (auto simp: usageLimitExceeded_def reachedUsageLimit_def truthy_def ge_opt_def
      split: option.splits)

lemma activeFilter_couponGate:
  "wellFormedStatus c \<Longrightarrow> activeFilter now c = couponGate now c"
  by (simp add: activeFilter_def couponGate_def wellFormedStatus_def isExpired_expiredAt
      usageLimitExceeded_reached)



lemma BxGy_candidates_single: "BxGy_candidates cart [c] = BxGy_candidate cart c"
  by (simp split: sum.splits)




section \<open>Discovery\<close>

lemma filter_activeFilter:
  "\<forall>c \<in> set cs. wellFormedStatus c \<Longrightarrow>
   filter (activeFilter now) cs = filter (couponGate now) cs"
  by (rule filter_cong) (simp_all add: activeFilter_couponGate)

lemma normalType_keys:
  "coupon_type c \<notin> set objectPrototypeKeys \<Longrightarrow> normalType c \<notin> set objectPrototypeKeys"
  by (simp add: normalType_def objectPrototypeKeys_def)

lemma groupByType_ofType:
  "\<forall>c \<in> set cs. coupon_type c \<notin> set objectPrototypeKeys \<Longrightarrow>
   groupByType cs g
     = Inr \<lparr>byCart = byCart g @ ofType ''cart'' cs,
            byProduct = byProduct g @ ofType ''product'' cs,
            byBxGy = byBxGy g @ ofType ''BxGy'' cs\<rparr>"
proof (induction cs arbitrary: g)
  case Nil
  then show ?case by (simp add: ofType_def)
next
  case (Cons c cs)
  from Cons.prems have k: "normalType c \<notin> set objectPrototypeKeys"
    and rest: "\<forall>c \<in> set cs. coupon_type c \<notin> set objectPrototypeKeys"
    by (simp_all add: normalType_keys)
  from Cons.IH [OF rest] k show ?case
    by (simp add: Let_def ofType_def)
qed

lemma applicableOfGroups_entries:
  "applicableOfGroups cart (entries g)
     = (case BxGy_isApplicable cart (byBxGy g) of
          Inl e \<Rightarrow> Inl e
        | Inr fromBxGy \<Rightarrow>
            Inr (CartWise_isApplicable cart (byCart g)
                 @ ProductWise_isApplicable cart (byProduct g) @ fromBxGy))"
  by (simp add: entries_def getStrategy_def CartWise_isApplicable_def
      ProductWise_isApplicable_def BxGy_isApplicable_def split: sum.splits)

lemma findApplicableCoupons_candidatesOf:
  assumes "\<forall>c \<in> set allCoupons. wellFormedStatus c"
    and "\<forall>c \<in> set (filter (couponGate now) allCoupons).
           coupon_type c \<notin> set objectPrototypeKeys"
  shows "findApplicableCoupons engineSort now cart allCoupons
           = map_sum id (engineSort compareDiscount)
               (candidatesOf cart (filter (couponGate now) allCoupons))"
proof -
  from groupByType_ofType [OF assms(2), of "\<lparr>byCart = [], byProduct = [], byBxGy = []\<rparr>"]
    filter_activeFilter [OF assms(1), of now]
  show ?thesis
    by (simp add: findApplicableCoupons_def applicableOfGroups_entries candidatesOf_def
        split: sum.splits)
qed

lemma insertBy_mset: "mset (insertBy cmp x ys) = add_mset x (mset ys)"
  by (induction ys) simp_all

lemma stableSort_mset: "mset (stableSort cmp xs) = mset xs"
  by (induction xs) (simp_all add: stableSort_def insertBy_mset)

lemma permutes_stableSort: "permutes stableSort"
  by (simp add: permutes_def stableSort_mset)

lemma conformingSort_stableSort: "conformingSort stableSort"
  by (simp add: conformingSort_def permutes_stableSort)

lemma js_ge_total:
  "isNumber a \<Longrightarrow> isNumber b \<Longrightarrow> \<not> js_gt_zero (js_sub b a) \<Longrightarrow> js_ge a b"
  by (cases a; cases b) (simp_all add: isNumber_def js_sub_def)

lemma js_gt_ge:
  "js_gt_zero (js_sub b a) \<Longrightarrow> js_ge b a"
  by (cases a; cases b) (simp_all add: js_sub_def)

lemma js_ge_trans: "js_ge a b \<Longrightarrow> js_ge b c \<Longrightarrow> js_ge a c"
  by (cases a; cases b; cases c) simp_all

lemma js_ge_NaN: "\<not> js_ge x NaN" "\<not> js_ge NaN y"
  by (cases x) simp_all

lemma insertBy_set: "set (insertBy cmp x ys) = insert x (set ys)"
  by (induction ys) auto

lemma insertBy_sorted:
  assumes "isNumber (ac_discount x)" "allNumbers ys" "byDiscountDescending ys"
  shows "byDiscountDescending (insertBy compareDiscount x ys)"
  using assms(2,3)
proof (induction ys)
  case Nil
  then show ?case by (simp add: byDiscountDescending_def)
next
  case (Cons y ys)
  from Cons.prems have ny: "isNumber (ac_discount y)" and nys: "allNumbers ys"
    and sy: "\<forall>z \<in> set ys. js_ge (ac_discount y) (ac_discount z)"
    and sys: "byDiscountDescending ys"
    by (simp_all add: allNumbers_def byDiscountDescending_def)
  show ?case
  proof (cases "js_gt_zero (compareDiscount x y)")
    case True
    then have "js_ge (ac_discount y) (ac_discount x)"
      by (simp add: compareDiscount_def js_gt_ge)
    with True sy Cons.IH [OF nys sys] show ?thesis
      by (simp add: byDiscountDescending_def insertBy_set)
  next
    case False
    with assms(1) ny have xy: "js_ge (ac_discount x) (ac_discount y)"
      by (simp add: compareDiscount_def js_ge_total)
    with sy have "\<forall>z \<in> set ys. js_ge (ac_discount x) (ac_discount z)"
      by (blast intro: js_ge_trans)
    with False xy Cons.prems(2) show ?thesis
      by (simp add: byDiscountDescending_def)
  qed
qed

lemma stableSort_allNumbers: "allNumbers xs \<Longrightarrow> allNumbers (stableSort cmp xs)"
proof -
  assume "allNumbers xs"
  moreover have "set (stableSort cmp xs) = set xs"
    using stableSort_mset [of cmp xs] by (metis set_mset_mset)
  ultimately show ?thesis by (simp add: allNumbers_def list_all_iff)
qed

lemma stableSort_sorted:
  "allNumbers xs \<Longrightarrow> byDiscountDescending (stableSort compareDiscount xs)"
proof (induction xs)
  case Nil
  then show ?case by (simp add: stableSort_def byDiscountDescending_def)
next
  case (Cons x xs)
  then have nx: "isNumber (ac_discount x)" and nxs: "allNumbers xs"
    by (simp_all add: allNumbers_def)
  from insertBy_sorted [OF nx stableSort_allNumbers [OF nxs] Cons.IH [OF nxs]]
  show ?case by (simp add: stableSort_def)
qed

text \<open>A list of two or more candidates one of which has the discount NaN is in no order.\<close>

lemma NaN_not_descending:
  assumes "a \<in> set ys" "ac_discount a = NaN" "2 \<le> length ys"
  shows "\<not> byDiscountDescending ys"
proof
  assume "byDiscountDescending ys"
  then have s: "\<And>i j. i < j \<Longrightarrow> j < length ys
      \<Longrightarrow> js_ge (ac_discount (ys ! i)) (ac_discount (ys ! j))"
    by (simp add: byDiscountDescending_def sorted_wrt_iff_nth_less)
  from assms(1) obtain k where k: "k < length ys" "ys ! k = a"
    by (auto simp: in_set_conv_nth)
  show False
  proof (cases "k = 0")
    case True
    with s [of 0 1] k assms(2,3) show False by (simp add: js_ge_NaN)
  next
    case False
    with s [of 0 k] k assms(2) show False by (simp add: js_ge_NaN)
  qed
qed

text \<open>
  Claim C6 says that \<^verbatim>\<open>findApplicableCoupons\<close> returns the candidates sorted by discount
  amount in descending order (the code's own comment: highest first). The buy-X-get-Y
  coupon without buy entries is a candidate for the cart of Scenario D whose discount is
  NaN (the unguarded division of \<^verbatim>\<open>calculateBxGyParams\<close>). Together with a cart-wide
  coupon of 50 and the buy-X-get-Y coupon of Scenario D, worth 300, the discovery returns
  the three candidates, and whatever the engine's sort makes of the comparator
  \<^verbatim>\<open>b.discount - a.discount\<close>, which is NaN next to that candidate, the list it returns is
  not in descending order of discount.
\<close>

theorem discovery_order_fails_on_NaN:
  assumes "permutes engineSort"
  shows "\<exists>ys. findApplicableCoupons engineSort 2000 cartD [couponFixed50, couponNoBuy, couponD]
                = Inr ys
     \<and> mset ys = {#\<lparr>ac_id = ''FLAT50'', ac_discount = Fin 50, ac_type = ''cart''\<rparr>,
                   \<lparr>ac_id = ''G1'', ac_discount = NaN, ac_type = ''BxGy''\<rparr>,
                   \<lparr>ac_id = ''B2G1'', ac_discount = Fin 300, ac_type = ''BxGy''\<rparr>#}
     \<and> \<not> byDiscountDescending ys"
proof -
  let ?cs = "[couponFixed50, couponNoBuy, couponD]"
  let ?n = "\<lparr>ac_id = ''G1'', ac_discount = NaN, ac_type = ''BxGy''\<rparr>"
  let ?xs = "[\<lparr>ac_id = ''FLAT50'', ac_discount = Fin 50, ac_type = ''cart''\<rparr>, ?n,
              \<lparr>ac_id = ''B2G1'', ac_discount = Fin 300, ac_type = ''BxGy''\<rparr>]"
  have w: "\<forall>c \<in> set ?cs. wellFormedStatus c" by code_simp
  have k: "\<forall>c \<in> set (filter (couponGate 2000) ?cs).
             coupon_type c \<notin> set objectPrototypeKeys" by code_simp
  have c: "candidatesOf cartD (filter (couponGate 2000) ?cs) = Inr ?xs" by code_simp
  from findApplicableCoupons_candidatesOf [OF w k, of engineSort cartD] c
  have f: "findApplicableCoupons engineSort 2000 cartD ?cs
      = Inr (engineSort compareDiscount ?xs)" by simp
  from assms have m: "mset (engineSort compareDiscount ?xs) = mset ?xs"
    by (simp add: permutes_def)
  from m have "set (engineSort compareDiscount ?xs) = set ?xs" by (rule mset_eq_setD)
  then have i: "?n \<in> set (engineSort compareDiscount ?xs)" by simp
  from m have "length (engineSort compareDiscount ?xs) = length ?xs"
    by (rule mset_eq_length)
  then have l: "2 \<le> length (engineSort compareDiscount ?xs)" by simp
  from NaN_not_descending [OF i _ l]
  have "\<not> byDiscountDescending (engineSort compareDiscount ?xs)" by simp
  with f m show ?thesis by simp
qed

text \<open>
  With a stable sort the candidate of 50 stays before the candidate of 300: next to the
  NaN the comparator never tells the sort to move anything.
\<close>

theorem discovery_order_fails_on_NaN_witness:
  "permutes stableSort
   \<and> findApplicableCoupons stableSort 2000 cartD [couponFixed50, couponNoBuy, couponD]
       = Inr [\<lparr>ac_id = ''FLAT50'', ac_discount = Fin 50, ac_type = ''cart''\<rparr>,
              \<lparr>ac_id = ''G1'', ac_discount = NaN, ac_type = ''BxGy''\<rparr>,
              \<lparr>ac_id = ''B2G1'', ac_discount = Fin 300, ac_type = ''BxGy''\<rparr>]
   \<and> \<not> byDiscountDescending
        [\<lparr>ac_id = ''FLAT50'', ac_discount = Fin 50, ac_type = ''cart''\<rparr>,
         \<lparr>ac_id = ''G1'', ac_discount = NaN, ac_type = ''BxGy''\<rparr>,
         \<lparr>ac_id = ''B2G1'', ac_discount = Fin 300, ac_type = ''BxGy''\<rparr>]"
proof -
  have v: "findApplicableCoupons stableSort 2000 cartD [couponFixed50, couponNoBuy, couponD]
       = Inr [\<lparr>ac_id = ''FLAT50'', ac_discount = Fin 50, ac_type = ''cart''\<rparr>,
              \<lparr>ac_id = ''G1'', ac_discount = NaN, ac_type = ''BxGy''\<rparr>,
              \<lparr>ac_id = ''B2G1'', ac_discount = Fin 300, ac_type = ''BxGy''\<rparr>]"
    by code_simp
  from discovery_order_fails_on_NaN [OF permutes_stableSort] v permutes_stableSort
  show ?thesis by auto
qed

text \<open>
  What holds of the discovery. When every stored coupon has a usage limit and an expiry
  date other than \<open>0\<close>, no coupon that passes the gate has a type tag that names a
  property of \<^verbatim>\<open>Object.prototype\<close>, and the engine's sort is what ECMAScript requires,
  \<^verbatim>\<open>findApplicableCoupons\<close> keeps the coupons that are active, not expired at the
  evaluation time and below their usage limit, groups them by type tag, passes each group
  to its strategy's \<^verbatim>\<open>isApplicable\<close>, concatenates the candidates and sorts them; the
  sorted list holds the same candidates, and it is in descending order of discount
  whenever every discount is a number.
\<close>

theorem findApplicableCoupons_pipeline:
  assumes "\<forall>c \<in> set allCoupons. wellFormedStatus c"
    and "\<forall>c \<in> set (filter (couponGate now) allCoupons).
           coupon_type c \<notin> set objectPrototypeKeys"
    and "conformingSort engineSort"
  shows "findApplicableCoupons engineSort now cart allCoupons
           = map_sum id (engineSort compareDiscount)
               (candidatesOf cart (filter (couponGate now) allCoupons))
         \<and> mset (engineSort compareDiscount xs) = mset xs
         \<and> (allNumbers xs \<longrightarrow> byDiscountDescending (engineSort compareDiscount xs))"
  using findApplicableCoupons_candidatesOf [OF assms(1,2)] assms(3) stableSort_sorted
  by (simp add: conformingSort_def permutes_def)

theorem findApplicableCoupons_pipeline_witness:
  "list_all wellFormedStatus [couponFixed50, couponExpired, couponD, couponVoucher]
   \<and> list_all (\<lambda>c. coupon_type c \<notin> set objectPrototypeKeys)
        (filter (couponGate 2000) [couponFixed50, couponExpired, couponD, couponVoucher])
   \<and> conformingSort stableSort
   \<and> findApplicableCoupons stableSort 2000 cartD
        [couponFixed50, couponExpired, couponD, couponVoucher]
       = Inr [\<lparr>ac_id = ''B2G1'', ac_discount = Fin 300, ac_type = ''BxGy''\<rparr>,
              \<lparr>ac_id = ''FLAT50'', ac_discount = Fin 50, ac_type = ''cart''\<rparr>]
   \<and> byDiscountDescending
        [\<lparr>ac_id = ''B2G1'', ac_discount = Fin 300, ac_type = ''BxGy''\<rparr>,
         \<lparr>ac_id = ''FLAT50'', ac_discount = Fin 50, ac_type = ''cart''\<rparr>]"
proof -
  let ?cs = "[couponFixed50, couponExpired, couponD, couponVoucher]"
  let ?xs = "[\<lparr>ac_id = ''FLAT50'', ac_discount = Fin 50, ac_type = ''cart''\<rparr>,
              \<lparr>ac_id = ''B2G1'', ac_discount = Fin 300, ac_type = ''BxGy''\<rparr>]"
  let ?ys = "[\<lparr>ac_id = ''B2G1'', ac_discount = Fin 300, ac_type = ''BxGy''\<rparr>,
              \<lparr>ac_id = ''FLAT50'', ac_discount = Fin 50, ac_type = ''cart''\<rparr>]"
  have u: "\<forall>c \<in> set ?cs. wellFormedStatus c" by code_simp
  have k: "\<forall>c \<in> set (filter (couponGate 2000) ?cs).
             coupon_type c \<notin> set objectPrototypeKeys" by code_simp
  have c: "candidatesOf cartD (filter (couponGate 2000) ?cs) = Inr ?xs" by code_simp
  have s: "stableSort compareDiscount ?xs = ?ys" by code_simp
  have n: "allNumbers ?xs" by code_simp
  from findApplicableCoupons_pipeline [OF u k conformingSort_stableSort, of cartD ?xs] c s n
  have "findApplicableCoupons stableSort 2000 cartD ?cs = Inr ?ys \<and> byDiscountDescending ?ys"
    by simp
  with u k conformingSort_stableSort show ?thesis by (simp add: list_all_iff)
qed

section \<open>Type tags that the service does not recognize\<close>

lemma groupByType_skips:
  assumes "\<not> recognizedTag (coupon_type c)" "coupon_type c \<notin> set objectPrototypeKeys"
  shows "groupByType (xs @ c # ys) g = groupByType (xs @ ys) g"
proof (induction xs arbitrary: g)
  case Nil
  from assms show ?case
    by (simp add: normalType_def recognizedTag_def)
next
  case (Cons x xs)
  then show ?case by (simp add: Let_def)
qed

lemma inherited_normalType:
  assumes "coupon_type c \<in> set objectPrototypeKeys"
  shows "normalType c \<in> set objectPrototypeKeys \<and> normalType c \<noteq> ''cart''
     \<and> normalType c \<noteq> ''product'' \<and> normalType c \<noteq> ''BxGy''"
  using assms by (auto simp: normalType_def objectPrototypeKeys_def)

lemma groupByType_inherited:
  assumes "c \<in> set cs" "coupon_type c \<in> set objectPrototypeKeys"
  shows "groupByType cs g = Inl TypeError"
  using assms(1)
proof (induction cs arbitrary: g)
  case Nil
  then show ?case by simp
next
  case (Cons x xs)
  show ?case
  proof (cases "x = c")
    case True
    with inherited_normalType [OF assms(2)] show ?thesis by (simp add: Let_def)
  next
    case False
    with Cons.prems have "c \<in> set xs" by simp
    from Cons.IH [OF this] show ?thesis by (simp add: Let_def)
  qed
qed

lemma findApplicableCoupons_inherited:
  assumes "c \<in> set cs" "activeFilter now c" "coupon_type c \<in> set objectPrototypeKeys"
  shows "findApplicableCoupons engineSort now cart cs = Inl TypeError"
proof -
  from assms(1,2) have "c \<in> set (filter (activeFilter now) cs)" by simp
  from groupByType_inherited [OF this assms(3)] show ?thesis
    by (simp add: findApplicableCoupons_def)
qed

text \<open>
  Claim C10 says that the discovery drops in silence a coupon that passes the status gate
  and whose type tag is not among the recognized ones: no candidate, no error. The tag
  \<^verbatim>\<open>toString\<close> is not recognized and the coupon passes the gate, yet the discovery throws
  a \<^verbatim>\<open>TypeError\<close>, also next to a coupon that would be a candidate: the guard
  \<^verbatim>\<open>if (couponsByType[type])\<close> reads the function that the object literal inherits, and
  that has no \<^verbatim>\<open>push\<close>. For the same coupon \<^verbatim>\<open>applyCoupon\<close>, which asks the switch of
  \<^verbatim>\<open>CartFactory.getStrategy\<close>, fails with the error of an invalid coupon type.
\<close>

theorem inherited_tag_raises:
  "\<not> recognizedTag (coupon_type couponToString)
   \<and> activeFilter 2000 couponToString
   \<and> findApplicableCoupons engineSort 2000 cartA [couponToString] = Inl TypeError
   \<and> findApplicableCoupons engineSort 2000 cartA [couponFixed50, couponToString] = Inl TypeError
   \<and> fst (applyCoupon 2000 (storeOf [couponToString]) cartA ''FLAT50'')
       = Inl (Error ''Invalid coupon type: toString'')"
proof -
  have a: "\<not> recognizedTag (coupon_type couponToString) \<and> activeFilter 2000 couponToString
     \<and> coupon_type couponToString \<in> set objectPrototypeKeys" by code_simp
  have b: "fst (applyCoupon 2000 (storeOf [couponToString]) cartA ''FLAT50'')
       = Inl (Error ''Invalid coupon type: toString'')"
    by (simp add: applyCoupon_def getCouponById_def storeOf_def couponToString_def
        couponFixed50_def mkCoupon_def isExpired_def usageLimitExceeded_def truthy_def
        normalType_def getStrategy_def)
  from a findApplicableCoupons_inherited [of couponToString "[couponToString]" 2000]
  have c: "findApplicableCoupons engineSort 2000 cartA [couponToString] = Inl TypeError"
    by simp
  from a findApplicableCoupons_inherited
    [of couponToString "[couponFixed50, couponToString]" 2000]
  have "findApplicableCoupons engineSort 2000 cartA [couponFixed50, couponToString]
      = Inl TypeError" by simp
  with a b c show ?thesis by simp
qed

text \<open>
  The same happens for every tag that names a property of \<^verbatim>\<open>Object.prototype\<close>: one coupon
  with such a tag that passes the filter makes the discovery throw, whatever the other
  coupons are.
\<close>

theorem inherited_tag_always_raises:
  assumes "c \<in> set cs" "activeFilter now c" "coupon_type c \<in> set objectPrototypeKeys"
  shows "\<not> recognizedTag (coupon_type c)
     \<and> findApplicableCoupons engineSort now cart cs = Inl TypeError"
proof -
  from assms(3) have "\<not> recognizedTag (coupon_type c)"
    by (auto simp: recognizedTag_def objectPrototypeKeys_def)
  with findApplicableCoupons_inherited [OF assms] show ?thesis by simp
qed

theorem inherited_tag_always_raises_witness:
  "couponFixed50\<lparr>coupon_type := ''constructor''\<rparr>
     \<in> set [couponD, couponFixed50\<lparr>coupon_type := ''constructor''\<rparr>]
   \<and> activeFilter 2000 (couponFixed50\<lparr>coupon_type := ''constructor''\<rparr>)
   \<and> coupon_type (couponFixed50\<lparr>coupon_type := ''constructor''\<rparr>) \<in> set objectPrototypeKeys
   \<and> findApplicableCoupons stableSort 2000 cartD
        [couponD, couponFixed50\<lparr>coupon_type := ''constructor''\<rparr>] = Inl TypeError"
proof -
  let ?c = "couponFixed50\<lparr>coupon_type := ''constructor''\<rparr>"
  have a: "?c \<in> set [couponD, ?c]" by simp
  have b: "activeFilter 2000 ?c" by code_simp
  have k: "coupon_type ?c \<in> set objectPrototypeKeys" by code_simp
  from inherited_tag_always_raises [OF a b k, of stableSort cartD] a b k
  show ?thesis by simp
qed

text \<open>
  A coupon whose type tag is none of \<^verbatim>\<open>cart\<close>, \<^verbatim>\<open>Product\<close>, \<^verbatim>\<open>product\<close> and \<^verbatim>\<open>BxGy\<close>, and
  names no property of \<^verbatim>\<open>Object.prototype\<close>, is dropped in silence: the discovery returns
  what it returns without that coupon, candidates and errors alike.
\<close>

theorem unrecognized_tag_dropped:
  assumes "\<not> recognizedTag (coupon_type c)" "coupon_type c \<notin> set objectPrototypeKeys"
  shows "findApplicableCoupons engineSort now cart (xs @ c # ys)
           = findApplicableCoupons engineSort now cart (xs @ ys)"
proof (cases "activeFilter now c")
  case True
  then show ?thesis
    using groupByType_skips [OF assms] by (simp add: findApplicableCoupons_def)
next
  case False
  then show ?thesis by (simp add: findApplicableCoupons_def)
qed

theorem unrecognized_tag_dropped_witness:
  "\<not> recognizedTag (coupon_type couponVoucher)
   \<and> coupon_type couponVoucher \<notin> set objectPrototypeKeys
   \<and> activeFilter 2000 couponVoucher
   \<and> findApplicableCoupons stableSort 2000 cartA ([couponFixed50] @ couponVoucher # [])
      = Inr [\<lparr>ac_id = ''FLAT50'', ac_discount = Fin 50, ac_type = ''cart''\<rparr>]"
proof -
  have a: "\<not> recognizedTag (coupon_type couponVoucher)" by code_simp
  have b: "coupon_type couponVoucher \<notin> set objectPrototypeKeys" by code_simp
  have c: "activeFilter 2000 couponVoucher" by code_simp
  have d: "findApplicableCoupons stableSort 2000 cartA ([couponFixed50] @ [])
      = Inr [\<lparr>ac_id = ''FLAT50'', ac_discount = Fin 50, ac_type = ''cart''\<rparr>]" by code_simp
  from unrecognized_tag_dropped [OF a b, of stableSort 2000 cartA "[couponFixed50]" "[]"] a b c d
  show ?thesis by simp
qed

section \<open>Further properties of the strategies\<close>

lemma ProductWise_applyLoop_snd:
  "snd (ProductWise_applyLoop m dd cid its) = ProductWise_sumDiscount m dd its"
  by (induction its) (auto split: prod.splits)

lemma CartWise_recorded:
  assumes "CartWise_isApplicable cart [k] = a # as"
  shows "ac_discount a = Fin (CartWise_calculateDiscount cart k)
     \<and> discountedAmount (CartWise_applyDiscount cart k) = Some (ac_discount a)"
  using assms
  by (auto simp: CartWise_isApplicable_def CartWise_candidate_def CartWise_applyDiscount_def
      Let_def split: if_splits)

lemma ProductWise_recorded:
  assumes "ProductWise_isApplicable cart [k] = a # as"
  shows "ac_discount a = Fin (ProductWise_calculateDiscount cart k)
     \<and> discountedAmount (ProductWise_applyDiscount cart k) = Some (ac_discount a)"
proof -
  from assms have "ac_discount a = Fin (ProductWise_calculateDiscount cart k)"
    by (auto simp: ProductWise_isApplicable_def ProductWise_candidate_def Let_def
        split: if_splits prod.splits)
  moreover have "discountedAmount (ProductWise_applyDiscount cart k)
      = Some (Fin (ProductWise_calculateDiscount cart k))"
    using ProductWise_applyLoop_snd [of "isMatch (conditions k)" "discountDetails k"
        "coupon_id k" "items cart"]
    by (auto simp: ProductWise_applyDiscount_def ProductWise_calculateDiscount_def Let_def
        split: prod.splits)
  ultimately show ?thesis by simp
qed

lemma BxGy_recorded:
  assumes "BxGy_candidate cart k = Inr (a # as)"
  shows "\<exists>c'. BxGy_applyDiscount cart k = Inr c'
     \<and> BxGy_calculateDiscount cart k = Inr (ac_discount a)
     \<and> discountedAmount c' = Some (ac_discount a)"
proof -
  from BxGy_candidate_params [OF assms] obtain params gets where
    p: "calculateBxGyParams cart (conditions k) = Inr params"
    and z: "\<not> js_is_zero (actualRepetitions params)"
    and g: "getProducts (conditions k) = Some gets" by blast
  from p z g have d: "BxGy_calculateDiscount cart k
      = Inr (js_floor (BxGy_discountLoop (items cart) gets
          (js_mul (actualRepetitions params) (Fin (requiredGetQuantity params))) (Fin 0)))"
    by (simp add: BxGy_calculateDiscount_def)
  with assms p z g have a: "ac_discount a = js_floor (BxGy_discountLoop (items cart) gets
          (js_mul (actualRepetitions params) (Fin (requiredGetQuantity params))) (Fin 0))"
    by (auto simp: BxGy_candidate_def Let_def split: if_splits)
  from BxGy_applyDiscount_amount [OF p z g refl] d a show ?thesis by auto
qed

text \<open>
  The amount that \<^verbatim>\<open>isApplicable\<close> reports for a coupon is the amount that
  \<^verbatim>\<open>calculateDiscount\<close> returns for it and the amount that \<^verbatim>\<open>applyDiscount\<close> records as
  the cart's discounted amount, for each of the three strategies.
\<close>

theorem applyDiscount_records_calculated:
  assumes "strategy_isApplicable s cart [k] = Inr (a # as)"
  shows "\<exists>c'. strategy_applyDiscount s cart k = Inr c'
     \<and> strategy_calculateDiscount s cart k = Inr (ac_discount a)
     \<and> discountedAmount c' = Some (ac_discount a)"
proof (cases s)
  case CartWiseHandler
  with assms CartWise_recorded [of cart k a as] show ?thesis by simp
next
  case ProductWiseHandler
  with assms ProductWise_recorded [of cart k a as] show ?thesis by simp
next
  case BxGyHandler
  with assms have "BxGy_candidate cart k = Inr (a # as)"
    by (auto simp: BxGy_isApplicable_def split: if_splits sum.splits)
  from BxGy_recorded [OF this] BxGyHandler show ?thesis by simp
qed

theorem applyDiscount_records_calculated_witness:
  "strategy_isApplicable BxGyHandler cartD [couponD]
     = Inr [\<lparr>ac_id = ''B2G1'', ac_discount = Fin 300, ac_type = ''BxGy''\<rparr>]
   \<and> strategy_calculateDiscount BxGyHandler cartD couponD = Inr (Fin 300)
   \<and> discountedAmount (projr (strategy_applyDiscount BxGyHandler cartD couponD)) = Some (Fin 300)"
proof -
  have a: "strategy_isApplicable BxGyHandler cartD [couponD]
     = Inr [\<lparr>ac_id = ''B2G1'', ac_discount = Fin 300, ac_type = ''BxGy''\<rparr>]" by code_simp
  from applyDiscount_records_calculated [OF a]
  have "strategy_calculateDiscount BxGyHandler cartD couponD = Inr (Fin 300)
   \<and> discountedAmount (projr (strategy_applyDiscount BxGyHandler cartD couponD)) = Some (Fin 300)"
    by auto
  with a show ?thesis by simp
qed

text \<open>
  For a positive required quantity the repetitions of a buy-X-get-Y deal are finite and do
  not decrease when the buy quantity in the cart grows, the limit staying the same.
\<close>

theorem repetitions_monotone:
  assumes "0 < required" "totalBuy \<le> totalBuy'"
  shows "\<exists>r r'. js_min (js_floor_div totalBuy required) (Fin limit) = Fin r
     \<and> js_min (js_floor_div totalBuy' required) (Fin limit) = Fin r' \<and> r \<le> r'"
  using assms by (simp add: js_floor_div_def zdiv_mono1 min.coboundedI1)

theorem repetitions_monotone_witness:
  "(0::int) < 2 \<and> (3::int) \<le> 5
   \<and> js_min (js_floor_div 3 2) (Fin 2) = Fin 1 \<and> js_min (js_floor_div 5 2) (Fin 2) = Fin 2"
proof -
  have h: "(0::int) < 2" "(3::int) \<le> 5" by simp_all
  have v: "js_min (js_floor_div 3 2) (Fin 2) = Fin 1 \<and> js_min (js_floor_div 5 2) (Fin 2) = Fin 2"
    by code_simp
  from repetitions_monotone [OF h, of 2] h v show ?thesis by simp
qed

subsection \<open>The invariants where the discount is a number\<close>

lemma js_eq_refl: "x \<noteq> NaN \<Longrightarrow> js_eq x x"
  by (cases x) simp_all

lemma js_sub_Fin_number: "d \<noteq> NaN \<Longrightarrow> js_sub (Fin t) d \<noteq> NaN"
  by (cases d) (simp_all add: js_sub_def)

lemma js_add_NaN_right: "js_add x NaN = NaN"
  by (cases x) simp_all

lemma touchedBy_ProductWise_applyItem: "touchedBy cid (ProductWise_applyItem dd cid item)"
  by (simp add: touchedBy_def itemInvariant_def ProductWise_applyItem_def pushCouponId_def
      Let_def js_sub_def mult.commute)

lemma touchedBy_BxGy_applyItem:
  assumes "js_mul freeQ (Fin (price item)) \<noteq> NaN"
  shows "touchedBy cid (BxGy_applyItem cid freeQ item)"
  using js_eq_refl [OF js_sub_Fin_number [OF assms, of "quantity item * price item"]]
  by (simp add: touchedBy_def itemInvariant_def BxGy_applyItem_def pushCouponId_def
      Let_def js_floor_def)

lemma eachSameOrTouched_refl: "eachSameOrTouched cid its its"
  by (simp add: eachSameOrTouched_def list_all_length)

lemma eachSameOrTouched_update:
  assumes "eachSameOrTouched cid before its" "touchedBy cid x"
  shows "eachSameOrTouched cid before (its[i := x])"
proof -
  from assms(1) have len: "length its = length before"
    and old: "\<And>n. n < length before \<Longrightarrow> its ! n = before ! n \<or> touchedBy cid (its ! n)"
    by (auto simp: eachSameOrTouched_def list_all_length)
  have "(its[i := x]) ! n = before ! n \<or> touchedBy cid ((its[i := x]) ! n)"
    if "n < length before" for n
    using that len old [of n] assms(2) by (cases "n = i") auto
  with len show ?thesis by (simp add: eachSameOrTouched_def list_all_length)
qed

lemma eachSameOrTouched_map:
  "eachSameOrTouched cid its
     (map (\<lambda>item. if m item then ProductWise_applyItem dd cid item else item) its)"
  by (induction its)
     (simp_all add: eachSameOrTouched_def touchedBy_ProductWise_applyItem)

lemma BxGy_applyLoop_NaN:
  "snd (BxGy_applyLoop cid gs its remaining NaN) = NaN"
  by (induction gs arbitrary: its remaining) (simp_all add: Let_def split: option.splits)

lemma BxGy_applyLoop_touched:
  assumes "eachSameOrTouched cid before its"
    "snd (BxGy_applyLoop cid gs its remaining totalDiscount) \<noteq> NaN"
  shows "eachSameOrTouched cid before (fst (BxGy_applyLoop cid gs its remaining totalDiscount))"
  using assms
proof (induction gs arbitrary: its remaining totalDiscount)
  case Nil
  then show ?case by simp
next
  case (Cons g gs)
  show ?case
  proof (cases "js_is_zero remaining")
    case True
    with Cons.prems show ?thesis by simp
  next
    case False
    show ?thesis
    proof (cases "findIndex its (productId g)")
      case None
      with False Cons show ?thesis by simp
    next
      case (Some i)
      let ?fq = "js_min (Fin (quantity (its ! i))) remaining"
      let ?d = "js_mul ?fq (Fin (price (its ! i)))"
      let ?its = "its[i := BxGy_applyItem cid ?fq (its ! i)]"
      from Cons.prems(2) False Some
      have r: "snd (BxGy_applyLoop cid gs ?its (js_sub remaining ?fq)
                 (js_add totalDiscount ?d)) \<noteq> NaN"
        by (simp add: Let_def)
      have "?d \<noteq> NaN"
      proof
        assume "?d = NaN"
        with r BxGy_applyLoop_NaN [of cid gs ?its "js_sub remaining ?fq"]
        show False by (simp add: js_add_NaN_right)
      qed
      from eachSameOrTouched_update [OF Cons.prems(1) touchedBy_BxGy_applyItem [OF this]]
      have "eachSameOrTouched cid before ?its" .
      from Cons.IH [OF this r] False Some show ?thesis by (simp add: Let_def)
    qed
  qed
qed

lemma BxGy_invariants:
  assumes "BxGy_candidate cart k = Inr (a # as)" "isNumber (ac_discount a)"
  shows "\<exists>c'. BxGy_applyDiscount cart k = Inr c' \<and> cartInvariant c'
     \<and> eachSameOrTouched (coupon_id k) (items cart) (items c')"
proof -
  from BxGy_candidate_params [OF assms(1)] obtain params gets where
    p: "calculateBxGyParams cart (conditions k) = Inr params"
    and z: "\<not> js_is_zero (actualRepetitions params)"
    and g: "getProducts (conditions k) = Some gets" by blast
  let ?rem = "js_mul (actualRepetitions params) (Fin (requiredGetQuantity params))"
  let ?loop = "BxGy_applyLoop (coupon_id k) gets (items cart) ?rem (Fin 0)"
  from p z g assms(1) have "ac_discount a
      = js_floor (BxGy_discountLoop (items cart) gets ?rem (Fin 0))"
    by (auto simp: BxGy_candidate_def BxGy_calculateDiscount_def Let_def split: if_splits)
  with BxGy_applyLoop_total [OF refl, of "coupon_id k" gets "items cart" ?rem "Fin 0"] assms(2)
  have n: "snd ?loop \<noteq> NaN" by (simp add: isNumber_def js_floor_def)
  from BxGy_applyLoop_touched [OF eachSameOrTouched_refl n]
  have t: "eachSameOrTouched (coupon_id k) (items cart) (fst ?loop)" .
  from p z g have "BxGy_applyDiscount cart k
      = Inr (cart\<lparr>items := fst ?loop, discountedAmount := Some (js_floor (snd ?loop)),
                  subTotal := Some (js_sub (Fin (totalAmount cart)) (js_floor (snd ?loop)))\<rparr>)"
    by (simp add: BxGy_applyDiscount_def Let_def split: prod.splits)
  moreover from js_eq_refl [OF js_sub_Fin_number [OF n, of "totalAmount cart"]]
  have "cartInvariant (cart\<lparr>items := fst ?loop, discountedAmount := Some (js_floor (snd ?loop)),
                  subTotal := Some (js_sub (Fin (totalAmount cart)) (js_floor (snd ?loop)))\<rparr>)"
    by (simp add: cartInvariant_def js_floor_def)
  ultimately show ?thesis using t by simp
qed

lemma ProductWise_invariants:
  "cartInvariant (ProductWise_applyDiscount cart k)
   \<and> items (ProductWise_applyDiscount cart k)
       = map (\<lambda>item. if isMatch (conditions k) item
                      then ProductWise_applyItem (discountDetails k) (coupon_id k) item
                      else item) (items cart)"
proof -
  have "items (ProductWise_applyDiscount cart k)
      = fst (ProductWise_applyLoop (isMatch (conditions k)) (discountDetails k) (coupon_id k)
          (items cart))"
    by (simp add: ProductWise_applyDiscount_def Let_def split: prod.splits)
  moreover have "cartInvariant (ProductWise_applyDiscount cart k)"
    by (simp add: cartInvariant_def ProductWise_applyDiscount_def Let_def js_sub_def
        split: prod.splits)
  ultimately show ?thesis by (simp add: ProductWise_applyLoop_map)
qed

lemma CartWise_invariants:
  "cartInvariant (CartWise_applyDiscount cart k)
   \<and> items (CartWise_applyDiscount cart k) = items cart"
  by (simp add: cartInvariant_def CartWise_applyDiscount_def Let_def js_sub_def)

text \<open>
  Where the discount that \<^verbatim>\<open>isApplicable\<close> reports for the coupon is a number, applying the
  coupon leaves a cart with \<open>subTotal = totalAmount - discountedAmount\<close>, and every item
  of it is as it was or satisfies \<open>final_price = quantity * price - total_discount\<close> and
  has the coupon as the last of its applied coupons. The cart-wide strategy writes no
  item, and the product strategy writes every matched item and no other.
\<close>

theorem applyDiscount_invariants_numbers:
  assumes "strategy_isApplicable s cart [k] = Inr (a # as)" "isNumber (ac_discount a)"
  shows "\<exists>c'. strategy_applyDiscount s cart k = Inr c' \<and> cartInvariant c'
     \<and> eachSameOrTouched (coupon_id k) (items cart) (items c')
     \<and> (s = CartWiseHandler \<longrightarrow> items c' = items cart)
     \<and> (s = ProductWiseHandler \<longrightarrow>
          items c' = map (\<lambda>item. if isMatch (conditions k) item
                                 then ProductWise_applyItem (discountDetails k) (coupon_id k) item
                                 else item) (items cart)
          \<and> list_all (touchedBy (coupon_id k)) (filter (isMatch (conditions k)) (items c')))"
proof (cases s)
  case CartWiseHandler
  with CartWise_invariants [of cart k] show ?thesis
    by (simp add: eachSameOrTouched_refl)
next
  case ProductWiseHandler
  have "list_all (touchedBy cid) (filter m
      (map (\<lambda>item. if m item then ProductWise_applyItem dd cid item else item) its))"
    for cid m dd its
    by (induction its) (simp_all add: touchedBy_ProductWise_applyItem)
  with ProductWiseHandler ProductWise_invariants [of cart k] show ?thesis
    by (simp add: eachSameOrTouched_map)
next
  case BxGyHandler
  with assms(1) have "BxGy_candidate cart k = Inr (a # as)"
    by (auto simp: BxGy_isApplicable_def split: if_splits sum.splits)
  from BxGy_invariants [OF this assms(2)] BxGyHandler show ?thesis by simp
qed

theorem applyDiscount_invariants_numbers_witness:
  "strategy_isApplicable ProductWiseHandler cartC [couponC]
     = Inr [\<lparr>ac_id = ''ELEC20'', ac_discount = Fin 10000, ac_type = ''product''\<rparr>]
   \<and> isNumber (Fin 10000)
   \<and> cartInvariant (ProductWise_applyDiscount cartC couponC)
   \<and> items (ProductWise_applyDiscount cartC couponC)
       = [(mkItem ''LAPTOP_001'' 1 50000 (Some ''Electronics''))
            \<lparr>total_discount := Some (Fin 10000), final_price := Some (Fin 40000),
             appliedCouponIds := Some [''ELEC20'']\<rparr>]
   \<and> strategy_isApplicable BxGyHandler cartD [couponD]
     = Inr [\<lparr>ac_id = ''B2G1'', ac_discount = Fin 300, ac_type = ''BxGy''\<rparr>]
   \<and> cartInvariant (projr (strategy_applyDiscount BxGyHandler cartD couponD))
   \<and> eachSameOrTouched ''B2G1'' (items cartD)
        (items (projr (strategy_applyDiscount BxGyHandler cartD couponD)))
   \<and> map final_price (items (projr (strategy_applyDiscount BxGyHandler cartD couponD)))
       = [None, Some (Fin 0)]"
proof -
  have a: "strategy_isApplicable ProductWiseHandler cartC [couponC]
     = Inr [\<lparr>ac_id = ''ELEC20'', ac_discount = Fin 10000, ac_type = ''product''\<rparr>]"
    by code_simp
  have n: "isNumber (ac_discount \<lparr>ac_id = ''ELEC20'', ac_discount = Fin 10000,
      ac_type = ''product''\<rparr>)" "isNumber (Fin 10000)" by (simp_all add: isNumber_def)
  have v: "map (\<lambda>item. if isMatch (conditions couponC) item
                        then ProductWise_applyItem (discountDetails couponC) (coupon_id couponC) item
                        else item) (items cartC)
       = [(mkItem ''LAPTOP_001'' 1 50000 (Some ''Electronics''))
            \<lparr>total_discount := Some (Fin 10000), final_price := Some (Fin 40000),
             appliedCouponIds := Some [''ELEC20'']\<rparr>]" by code_simp
  have b: "strategy_isApplicable BxGyHandler cartD [couponD]
     = Inr [\<lparr>ac_id = ''B2G1'', ac_discount = Fin 300, ac_type = ''BxGy''\<rparr>]" by code_simp
  have m: "isNumber (ac_discount \<lparr>ac_id = ''B2G1'', ac_discount = Fin 300,
      ac_type = ''BxGy''\<rparr>)" by (simp add: isNumber_def)
  have i: "coupon_id couponD = ''B2G1''" by code_simp
  have f: "map final_price (items (projr (strategy_applyDiscount BxGyHandler cartD couponD)))
       = [None, Some (Fin 0)]" by code_simp
  from applyDiscount_invariants_numbers [OF a n(1)] v
  have p: "cartInvariant (ProductWise_applyDiscount cartC couponC)
   \<and> items (ProductWise_applyDiscount cartC couponC)
       = [(mkItem ''LAPTOP_001'' 1 50000 (Some ''Electronics''))
            \<lparr>total_discount := Some (Fin 10000), final_price := Some (Fin 40000),
             appliedCouponIds := Some [''ELEC20'']\<rparr>]" by simp
  from applyDiscount_invariants_numbers [OF b m] i
  have "cartInvariant (projr (strategy_applyDiscount BxGyHandler cartD couponD))
   \<and> eachSameOrTouched ''B2G1'' (items cartD)
        (items (projr (strategy_applyDiscount BxGyHandler cartD couponD)))" by auto
  with a n(2) p b f show ?thesis by simp
qed

end
